theory Spec2Isabelle
  imports Main
begin

section \<open>JavaScript strings\<close>

text \<open>
  The module \<^verbatim>\<open>src/paths.ts\<close> works on JavaScript strings. They are modelled as HOL
  strings (lists of 8-bit characters): an ASCII character is itself, any other character
  stands as the bytes of its UTF-8 encoding. All the characters the module inspects
  (slashes, dots, colons, drive letters, percent signs) are ASCII. Case conversion is the
  ASCII one: \<^verbatim>\<open>toLowerCase\<close> of a character outside A-Z is the character itself.

  A HOL string literal cannot hold a backslash; \<open>bslash\<close> is the character and
  \<open>WIN ''C:/a/b''\<close> writes the Windows path \<^verbatim>\<open>C:\a\b\<close>.
\<close>

abbreviation bslash :: char where
  "bslash \<equiv> CHR 0x5C"

definition WIN :: "string \<Rightarrow> string" where
  "WIN s = map (\<lambda>c. if c = CHR ''/'' then bslash else c) s"

definition charCode :: "char \<Rightarrow> nat" where
  "charCode c = of_char c"

definition isUpperAZ :: "char \<Rightarrow> bool" where
  "isUpperAZ c \<longleftrightarrow> 65 \<le> charCode c \<and> charCode c \<le> 90"

definition isLowerAZ :: "char \<Rightarrow> bool" where
  "isLowerAZ c \<longleftrightarrow> 97 \<le> charCode c \<and> charCode c \<le> 122"

definition isLetter :: "char \<Rightarrow> bool" where
  "isLetter c \<longleftrightarrow> isLowerAZ c \<or> isUpperAZ c"

definition isDigit :: "char \<Rightarrow> bool" where
  "isDigit c \<longleftrightarrow> 48 \<le> charCode c \<and> charCode c \<le> 57"

text \<open>An upper-case ASCII letter and its lower-case form differ in bit 5 (value 32).\<close>

fun toLowerChar :: "char \<Rightarrow> char" where
  "toLowerChar (Char b0 b1 b2 b3 b4 b5 b6 b7) =
     (if isUpperAZ (Char b0 b1 b2 b3 b4 b5 b6 b7)
      then Char b0 b1 b2 b3 b4 True b6 b7
      else Char b0 b1 b2 b3 b4 b5 b6 b7)"

definition toLowerCase :: "string \<Rightarrow> string" where
  "toLowerCase s = map toLowerChar s"

text \<open>
  The regular expressions of the module are all anchored at the start of the string and
  are sequences of single-character items: a literal character or a character class.
  \<open>reTest items s\<close> is \<^verbatim>\<open>/^items/.test(s)\<close>.
\<close>

datatype reItem = Lit char | Class "char \<Rightarrow> bool"

fun reItemOk :: "reItem \<Rightarrow> char \<Rightarrow> bool" where
  "reItemOk (Lit a) c = (c = a)"
| "reItemOk (Class p) c = p c"

fun reTest :: "reItem list \<Rightarrow> string \<Rightarrow> bool" where
  "reTest [] s = True"
| "reTest (i # is) [] = False"
| "reTest (i # is) (c # cs) = (reItemOk i c \<and> reTest is cs)"

definition lits :: "string \<Rightarrow> reItem list" where
  "lits s = map Lit s"

text \<open>
  String indices: \<open>jsSlice s a b\<close> is \<^verbatim>\<open>s.slice(a, b)\<close> and \<open>jsSliceFrom s a\<close> is
  \<^verbatim>\<open>s.slice(a)\<close>, with JavaScript's treatment of negative and too large indices;
  \<open>codeAt s i\<close> is \<^verbatim>\<open>s.charCodeAt(i)\<close>, \<open>None\<close> standing for NaN; \<open>indexOfChar\<close>,
  \<open>lastIndexOfChar\<close> and \<open>indexOf\<close> return -1 when there is no occurrence.
\<close>

definition clampIndex :: "nat \<Rightarrow> int \<Rightarrow> nat" where
  "clampIndex len k = (if k < 0 then nat (max (int len + k) 0) else min (nat k) len)"

definition jsSlice :: "string \<Rightarrow> int \<Rightarrow> int \<Rightarrow> string" where
  "jsSlice s a b =
     (let i = clampIndex (length s) a; j = clampIndex (length s) b in take (j - i) (drop i s))"

definition jsSliceFrom :: "string \<Rightarrow> int \<Rightarrow> string" where
  "jsSliceFrom s a = drop (clampIndex (length s) a) s"

definition codeAt :: "string \<Rightarrow> nat \<Rightarrow> char option" where
  "codeAt s i = (if i < length s then Some (s ! i) else None)"

definition indexOfChar :: "char \<Rightarrow> string \<Rightarrow> int" where
  "indexOfChar c s = (if c \<in> set s then int (length (takeWhile (\<lambda>x. x \<noteq> c) s)) else - 1)"

definition lastIndexOfChar :: "char \<Rightarrow> string \<Rightarrow> int" where
  "lastIndexOfChar c s =
     (if c \<in> set s then int (length s) - 1 - int (length (takeWhile (\<lambda>x. x \<noteq> c) (rev s)))
      else - 1)"

fun indexOfFrom :: "string \<Rightarrow> string \<Rightarrow> nat \<Rightarrow> int" where
  "indexOfFrom pat [] i = (if pat = [] then int i else - 1)"
| "indexOfFrom pat (c # cs) i =
     (if take (length pat) (c # cs) = pat then int i else indexOfFrom pat cs (i + 1))"

definition indexOf :: "string \<Rightarrow> string \<Rightarrow> int" where
  "indexOf s pat = indexOfFrom pat s 0"

definition replaceChar :: "char \<Rightarrow> char \<Rightarrow> string \<Rightarrow> string" where
  "replaceChar a b s = map (\<lambda>c. if c = a then b else c) s"

fun toUpperChar :: "char \<Rightarrow> char" where
  "toUpperChar (Char b0 b1 b2 b3 b4 b5 b6 b7) =
     (if isLowerAZ (Char b0 b1 b2 b3 b4 b5 b6 b7)
      then Char b0 b1 b2 b3 b4 False b6 b7
      else Char b0 b1 b2 b3 b4 b5 b6 b7)"

definition toUpperCase :: "string \<Rightarrow> string" where
  "toUpperCase s = map toUpperChar s"

section \<open>The runtime: the host platform and Node's \<^verbatim>\<open>path\<close> module\<close>

text \<open>
  The module calls \<^verbatim>\<open>path.relative\<close>, \<^verbatim>\<open>path.resolve\<close> and \<^verbatim>\<open>path.normalize\<close> of the
  platform it runs on, and \<^verbatim>\<open>path.posix.relative\<close> and \<^verbatim>\<open>path.win32.relative\<close> by name.
  These functions belong to the Node.js runtime, not to the repository. They are modelled
  here after \<^verbatim>\<open>lib/path.js\<close> of Node.js 22, statement by statement. What they read from the
  process is a parameter: the platform, the current working directory, and the
  environment (Windows keeps a working directory per drive under the name \<^verbatim>\<open>=C:\<close>).
  \<open>toASCII\<close> is the IDNA conversion that \<^verbatim>\<open>url.parse\<close> applies to a host name.
\<close>

record runtime =
  isWindows :: bool
  processCwd :: string
  processEnv :: "string \<Rightarrow> string option"
  toASCII :: "string \<Rightarrow> string"

definition isPathSeparator :: "char \<Rightarrow> bool" where
  "isPathSeparator c \<longleftrightarrow> c = CHR ''/'' \<or> c = bslash"

definition isPosixPathSeparator :: "char \<Rightarrow> bool" where
  "isPosixPathSeparator c \<longleftrightarrow> c = CHR ''/''"

definition isWindowsDeviceRoot :: "char \<Rightarrow> bool" where
  "isWindowsDeviceRoot c \<longleftrightarrow> isUpperAZ c \<or> isLowerAZ c"

subsection \<open>\<^verbatim>\<open>normalizeString\<close>\<close>

text \<open>
  \<^verbatim>\<open>normalizeString(path, allowAboveRoot, separator, isPathSeparator)\<close> resolves the
  \<^verbatim>\<open>.\<close> and \<^verbatim>\<open>..\<close> elements of a path. It is one loop over the indices \<open>0..path.length\<close>
  with four variables; \<open>nsSegmentEnd\<close> is the loop body at a separator (or at the end of
  the path), \<open>nsLoop\<close> the loop, whose \<open>code\<close> is the character read at the last index.
\<close>

record nsState =
  res :: string
  lastSegmentLength :: int
  lastSlash :: int
  dots :: int

definition nsSegmentEnd :: "string \<Rightarrow> bool \<Rightarrow> char \<Rightarrow> nat \<Rightarrow> nsState \<Rightarrow> nsState" where
  "nsSegmentEnd path allowAboveRoot separator i st =
     (if lastSlash st = int i - 1 \<or> dots st = 1 then st\<lparr>lastSlash := int i, dots := 0\<rparr>
      else if dots st = 2 then
        (if (length (res st) < 2 \<or> lastSegmentLength st \<noteq> 2
               \<or> codeAt (res st) (length (res st) - 1) \<noteq> Some CHR ''.''
               \<or> codeAt (res st) (length (res st) - 2) \<noteq> Some CHR ''.'')
            \<and> length (res st) > 2 then
           (let lastSlashIndex = int (length (res st)) - lastSegmentLength st - 1 in
            if lastSlashIndex = - 1
            then st\<lparr>res := [], lastSegmentLength := 0, lastSlash := int i, dots := 0\<rparr>
            else (let r = jsSlice (res st) 0 lastSlashIndex in
                  st\<lparr>res := r,
                     lastSegmentLength := int (length r) - 1 - lastIndexOfChar separator r,
                     lastSlash := int i, dots := 0\<rparr>))
         else if (length (res st) < 2 \<or> lastSegmentLength st \<noteq> 2
               \<or> codeAt (res st) (length (res st) - 1) \<noteq> Some CHR ''.''
               \<or> codeAt (res st) (length (res st) - 2) \<noteq> Some CHR ''.'')
            \<and> length (res st) \<noteq> 0 then
           st\<lparr>res := [], lastSegmentLength := 0, lastSlash := int i, dots := 0\<rparr>
         else if allowAboveRoot then
           st\<lparr>res := (if length (res st) > 0 then res st @ separator # ''..'' else ''..''),
              lastSegmentLength := 2, lastSlash := int i, dots := 0\<rparr>
         else st\<lparr>lastSlash := int i, dots := 0\<rparr>)
      else
        st\<lparr>res := (if length (res st) > 0
                   then res st @ separator # jsSlice path (lastSlash st + 1) (int i)
                   else jsSlice path (lastSlash st + 1) (int i)),
           lastSegmentLength := int i - lastSlash st - 1,
           lastSlash := int i, dots := 0\<rparr>)"

fun nsLoop :: "string \<Rightarrow> bool \<Rightarrow> char \<Rightarrow> (char \<Rightarrow> bool) \<Rightarrow> string \<Rightarrow> nat \<Rightarrow> char \<Rightarrow> nsState \<Rightarrow> string" where
  "nsLoop path allowAboveRoot separator isSep [] i code st =
     (if isSep code then res st
      else res (nsSegmentEnd path allowAboveRoot separator i st))"
| "nsLoop path allowAboveRoot separator isSep (c # cs) i code st =
     nsLoop path allowAboveRoot separator isSep cs (i + 1) c
       (if isSep c then nsSegmentEnd path allowAboveRoot separator i st
        else if c = CHR ''.'' \<and> dots st \<noteq> - 1 then st\<lparr>dots := dots st + 1\<rparr>
        else st\<lparr>dots := - 1\<rparr>)"

definition normalizeString :: "string \<Rightarrow> bool \<Rightarrow> char \<Rightarrow> (char \<Rightarrow> bool) \<Rightarrow> string" where
  "normalizeString path allowAboveRoot separator isSep =
     nsLoop path allowAboveRoot separator isSep path 0 (CHR 0x00)
       \<lparr>res = [], lastSegmentLength = 0, lastSlash = - 1, dots = 0\<rparr>"

subsection \<open>\<^verbatim>\<open>path.posix\<close>\<close>

text \<open>
  \<^verbatim>\<open>posixCwd()\<close>: on a Windows host the working directory is turned into a POSIX path
  (backslashes to slashes, the drive cut off).
\<close>

definition posixCwd :: "runtime \<Rightarrow> string" where
  "posixCwd rt =
     (if isWindows rt
      then (let c = replaceChar bslash (CHR ''/'') (processCwd rt)
            in jsSliceFrom c (indexOfChar (CHR ''/'') c))
      else processCwd rt)"

text \<open>
  \<^verbatim>\<open>posix.resolve(...args)\<close>: the arguments are visited from the last to the first until
  an absolute one is met. \<open>posixResolveLoop\<close> takes them in that order.
\<close>

fun posixResolveLoop :: "string list \<Rightarrow> string \<Rightarrow> bool \<Rightarrow> string \<times> bool" where
  "posixResolveLoop [] resolvedPath resolvedAbsolute = (resolvedPath, resolvedAbsolute)"
| "posixResolveLoop (path # paths) resolvedPath resolvedAbsolute =
     (if resolvedAbsolute then (resolvedPath, resolvedAbsolute)
      else if length path = 0 then posixResolveLoop paths resolvedPath resolvedAbsolute
      else posixResolveLoop paths (path @ ''/'' @ resolvedPath)
             (codeAt path 0 = Some CHR ''/''))"

definition posixResolve :: "runtime \<Rightarrow> string list \<Rightarrow> string" where
  "posixResolve rt args =
     (if (length args = 0 \<or> (length args = 1 \<and> (args ! 0 = [] \<or> args ! 0 = ''.'')))
         \<and> codeAt (posixCwd rt) 0 = Some CHR ''/''
      then posixCwd rt
      else
        (let (p1, a1) = posixResolveLoop (rev args) [] False;
             (p2, a2) = (if \<not> a1 then (posixCwd rt @ ''/'' @ p1, codeAt (posixCwd rt) 0 = Some CHR ''/'')
                         else (p1, a1));
             p3 = normalizeString p2 (\<not> a2) (CHR ''/'') isPosixPathSeparator
         in if a2 then ''/'' @ p3
            else if length p3 > 0 then p3 else ''.''))"

definition posixNormalize :: "string \<Rightarrow> string" where
  "posixNormalize path =
     (if length path = 0 then ''.''
      else
        (let isAbsolute = (codeAt path 0 = Some CHR ''/'');
             trailingSeparator = (codeAt path (length path - 1) = Some CHR ''/'');
             p = normalizeString path (\<not> isAbsolute) (CHR ''/'') isPosixPathSeparator
         in if length p = 0 then
              (if isAbsolute then ''/'' else if trailingSeparator then ''./'' else ''.'')
            else (let p' = (if trailingSeparator then p @ ''/'' else p)
                  in if isAbsolute then ''/'' @ p' else p')))"

text \<open>
  The comparison loop of \<^verbatim>\<open>relative\<close>: \<open>i\<close> runs while both strings have a character at
  \<open>i\<close> and the characters agree; \<open>lastCommonSep\<close> is the last index where the common
  character is the separator. The two lists are the parts of \<open>from\<close> and \<open>to\<close> from
  \<open>fromStart\<close> and \<open>toStart\<close> on. The second loop writes one \<^verbatim>\<open>..\<close> for every
  remaining segment of \<open>from\<close>.
\<close>

fun relativeCompare :: "char \<Rightarrow> string \<Rightarrow> string \<Rightarrow> nat \<Rightarrow> int \<Rightarrow> nat \<times> int" where
  "relativeCompare sep (f # fs) (t # ts) i lastCommonSep =
     (if f \<noteq> t then (i, lastCommonSep)
      else relativeCompare sep fs ts (i + 1) (if f = sep then int i else lastCommonSep))"
| "relativeCompare sep [] ts i lastCommonSep = (i, lastCommonSep)"
| "relativeCompare sep fs [] i lastCommonSep = (i, lastCommonSep)"

fun relativeUps :: "char \<Rightarrow> string \<Rightarrow> string \<Rightarrow> string" where
  "relativeUps sep [] out = (if length out = 0 then ''..'' else out @ sep # ''..'')"
| "relativeUps sep (c # cs) out =
     relativeUps sep cs (if c = sep then (if length out = 0 then ''..'' else out @ sep # ''..'') else out)"

definition posixRelative :: "runtime \<Rightarrow> string \<Rightarrow> string \<Rightarrow> string" where
  "posixRelative rt from0 to0 =
     (if from0 = to0 then []
      else
        (let from = posixResolve rt [from0]; to = posixResolve rt [to0] in
         if from = to then []
         else
           (let fromStart = 1; fromEnd = length from; fromLen = fromEnd - fromStart;
                toStart = 1; toLen = length to - toStart;
                len = (if fromLen < toLen then fromLen else toLen);
                (i, sep0) = relativeCompare (CHR ''/'') (drop fromStart from) (drop toStart to) 0 (- 1)
            in
              if i = len \<and> toLen > len \<and> codeAt to (toStart + i) = Some CHR ''/''
              then jsSliceFrom to (int (toStart + i + 1))
              else if i = len \<and> toLen > len \<and> i = 0
              then jsSliceFrom to (int (toStart + i))
              else
                (let lastCommonSep =
                       (if i = len \<and> \<not> toLen > len \<and> fromLen > len then
                          (if codeAt from (fromStart + i) = Some CHR ''/'' then int i
                           else if i = 0 then 0 else sep0)
                        else sep0);
                     start = int fromStart + lastCommonSep + 1;
                     out = (if start \<le> int fromEnd
                            then relativeUps (CHR ''/'') (jsSlice from start (int fromEnd)) []
                            else [])
                 in out @ jsSliceFrom to (int toStart + lastCommonSep)))))"

subsection \<open>\<^verbatim>\<open>path.win32\<close>\<close>

text \<open>
  A path that starts with two separators may name a UNC root \<^verbatim>\<open>\\server\share\<close>. The
  three scanning loops of the source (non-separators, separators, non-separators) are
  \<open>takeWhile\<close>s; \<open>uncScan\<close> returns the first part, the index \<open>last\<close> where the second
  part starts, the second part and the index \<open>j\<close> where it ends, when the first two
  loops have matched.
\<close>

definition uncScan :: "string \<Rightarrow> (string \<times> nat \<times> string \<times> nat) option" where
  "uncScan path =
     (let len = length path;
          firstPart = takeWhile (\<lambda>c. \<not> isPathSeparator c) (drop 2 path);
          j1 = 2 + length firstPart
      in if j1 < len \<and> j1 \<noteq> 2 then
           (let j2 = j1 + length (takeWhile isPathSeparator (drop j1 path)) in
            if j2 < len \<and> j2 \<noteq> j1 then
              (let second = takeWhile (\<lambda>c. \<not> isPathSeparator c) (drop j2 path)
               in Some (firstPart, j2, second, j2 + length second))
            else None)
         else None)"

text \<open>
  The root of one argument of \<^verbatim>\<open>win32.resolve\<close>: \<open>(rootEnd, device, isAbsolute)\<close>.
\<close>

definition win32Root :: "string \<Rightarrow> nat \<times> string \<times> bool" where
  "win32Root path =
     (let len = length path in
      if len = 1 then
        (if isPathSeparator (path ! 0) then (1, [], True) else (0, [], False))
      else if len > 0 \<and> isPathSeparator (path ! 0) then
        (if isPathSeparator (path ! 1) then
           (case uncScan path of
              Some (firstPart, lastIdx, second, j) \<Rightarrow>
                (if j = len \<or> j \<noteq> lastIdx
                 then (j, bslash # bslash # firstPart @ bslash # second, True)
                 else (0, [], True))
            | None \<Rightarrow> (0, [], True))
         else (1, [], True))
      else if len > 0 \<and> isWindowsDeviceRoot (path ! 0) \<and> codeAt path 1 = Some CHR '':'' then
        (if len > 2 \<and> isPathSeparator (path ! 2)
         then (3, jsSlice path 0 2, True)
         else (2, jsSlice path 0 2, False))
      else (0, [], False))"

text \<open>
  \<^verbatim>\<open>win32.resolve(...args)\<close>. The loop runs over the arguments from the last to the
  first and then once more (index -1) over the working directory. Its variables are
  \<open>(resolvedDevice, resolvedTail, resolvedAbsolute)\<close>. \<open>win32ResolveStep\<close> is the loop
  body after the path of the round has been chosen; it returns the new variables and
  whether the loop is left by \<^verbatim>\<open>break\<close>.
\<close>

definition win32ResolveStep ::
  "string \<Rightarrow> string \<times> string \<times> bool \<Rightarrow> (string \<times> string \<times> bool) \<times> bool" where
  "win32ResolveStep path st =
     (case st of (resolvedDevice, resolvedTail, resolvedAbsolute) \<Rightarrow>
      (case win32Root path of (rootEnd, device, isAbsolute) \<Rightarrow>
        if length device > 0 \<and> length resolvedDevice > 0
           \<and> toLowerCase device \<noteq> toLowerCase resolvedDevice
        then (st, False)
        else
          (let resolvedDevice' =
                 (if length device > 0 \<and> \<not> length resolvedDevice > 0 then device
                  else resolvedDevice)
           in if resolvedAbsolute
              then ((resolvedDevice', resolvedTail, resolvedAbsolute), length resolvedDevice' > 0)
              else ((resolvedDevice', jsSliceFrom path (int rootEnd) @ bslash # resolvedTail,
                     isAbsolute),
                    isAbsolute \<and> length resolvedDevice' > 0))))"

definition win32ResolveFinish :: "string \<times> string \<times> bool \<Rightarrow> string" where
  "win32ResolveFinish st =
     (case st of (resolvedDevice, resolvedTail, resolvedAbsolute) \<Rightarrow>
        (let tail = normalizeString resolvedTail (\<not> resolvedAbsolute) bslash isPathSeparator in
         if resolvedAbsolute then resolvedDevice @ bslash # tail
         else if length (resolvedDevice @ tail) > 0 then resolvedDevice @ tail
         else ''.''))"

text \<open>
  The last round (index -1): the path is the working directory of the process, or the
  working directory of the drive already resolved. With no drive resolved and a single
  argument \<^verbatim>\<open>''\<close> or \<^verbatim>\<open>'.'\<close> (or none), a working directory that starts with a separator
  is returned at once.
\<close>

definition win32ResolveCwd :: "runtime \<Rightarrow> string list \<Rightarrow> string \<times> string \<times> bool \<Rightarrow> string" where
  "win32ResolveCwd rt args st =
     (case st of (resolvedDevice, resolvedTail, resolvedAbsolute) \<Rightarrow>
        if length resolvedDevice = 0 then
          (let path = processCwd rt in
           if length args = 0
              \<or> ((length args = 1 \<and> (args ! 0 = [] \<or> args ! 0 = ''.''))
                  \<and> (case codeAt path 0 of Some c \<Rightarrow> isPathSeparator c | None \<Rightarrow> False))
           then (if \<not> isWindows rt then replaceChar (CHR ''/'') bslash path else path)
           else win32ResolveFinish (fst (win32ResolveStep path st)))
        else
          (let path0 = (case processEnv rt (CHR ''='' # resolvedDevice) of
                          Some v \<Rightarrow> (if length v > 0 then v else processCwd rt)
                        | None \<Rightarrow> processCwd rt);
               path = (if toLowerCase (jsSlice path0 0 2) \<noteq> toLowerCase resolvedDevice
                          \<and> codeAt path0 2 = Some bslash
                       then resolvedDevice @ [bslash] else path0)
           in win32ResolveFinish (fst (win32ResolveStep path st))))"

fun win32ResolveLoop :: "runtime \<Rightarrow> string list \<Rightarrow> string list \<Rightarrow> string \<times> string \<times> bool \<Rightarrow> string" where
  "win32ResolveLoop rt args [] st = win32ResolveCwd rt args st"
| "win32ResolveLoop rt args (path # paths) st =
     (if length path = 0 then win32ResolveLoop rt args paths st
      else (case win32ResolveStep path st of
              (st', leave) \<Rightarrow>
                if leave then win32ResolveFinish st' else win32ResolveLoop rt args paths st'))"

definition win32Resolve :: "runtime \<Rightarrow> string list \<Rightarrow> string" where
  "win32Resolve rt args = win32ResolveLoop rt args (rev args) ([], [], False)"

text \<open>
  \<^verbatim>\<open>win32.normalize(path)\<close>, with the reserved device names (\<^verbatim>\<open>CON\<close>, \<^verbatim>\<open>COM1\<close>, ...) and
  the guard against a relative path whose normal form would read as a drive path.
\<close>

definition WINDOWS_RESERVED_NAMES :: "string list" where
  "WINDOWS_RESERVED_NAMES =
     [''CON'', ''PRN'', ''AUX'', ''NUL'',
      ''COM1'', ''COM2'', ''COM3'', ''COM4'', ''COM5'', ''COM6'', ''COM7'', ''COM8'', ''COM9'',
      ''LPT1'', ''LPT2'', ''LPT3'', ''LPT4'', ''LPT5'', ''LPT6'', ''LPT7'', ''LPT8'', ''LPT9'',
      ''COM'' @ [CHR 0xC2, CHR 0xB9], ''COM'' @ [CHR 0xC2, CHR 0xB2], ''COM'' @ [CHR 0xC2, CHR 0xB3],
      ''LPT'' @ [CHR 0xC2, CHR 0xB9], ''LPT'' @ [CHR 0xC2, CHR 0xB2], ''LPT'' @ [CHR 0xC2, CHR 0xB3]]"

definition isWindowsReservedName :: "string \<Rightarrow> int \<Rightarrow> bool" where
  "isWindowsReservedName path colonIndex \<longleftrightarrow>
     toUpperCase (jsSlice path 0 colonIndex) \<in> set WINDOWS_RESERVED_NAMES"

fun colonBeforeSeparatorOrEnd :: "string \<Rightarrow> bool" where
  "colonBeforeSeparatorOrEnd [] = False"
| "colonBeforeSeparatorOrEnd (c # cs) =
     ((c = CHR '':'' \<and> (case cs of [] \<Rightarrow> True | d # _ \<Rightarrow> isPathSeparator d))
      \<or> colonBeforeSeparatorOrEnd cs)"

definition win32NormalizeRoot :: "string \<Rightarrow> string + (nat \<times> string option \<times> bool)" where
  "win32NormalizeRoot path =
     (let len = length path in
      if isPathSeparator (path ! 0) then
        (if isPathSeparator (path ! 1) then
           (case uncScan path of
              Some (firstPart, lastIdx, second, j) \<Rightarrow>
                (if j = len
                 then Inl (bslash # bslash # firstPart @ bslash # jsSliceFrom path (int lastIdx) @ [bslash])
                 else if j \<noteq> lastIdx
                 then Inr (j, Some (bslash # bslash # firstPart @ bslash # second), True)
                 else Inr (0, None, True))
            | None \<Rightarrow> Inr (0, None, True))
         else Inr (1, None, True))
      else
        (let colonIndex = indexOfChar (CHR '':'') path in
         if colonIndex > 0 then
           (if isWindowsDeviceRoot (path ! 0) \<and> colonIndex = 1 then
              (if len > 2 \<and> isPathSeparator (path ! 2)
               then Inr (3, Some (jsSlice path 0 2), True)
               else Inr (2, Some (jsSlice path 0 2), False))
            else if isWindowsReservedName path colonIndex
            then Inr (nat (colonIndex + 1), Some (jsSlice path 0 (colonIndex + 1)), False)
            else Inr (0, None, False))
         else Inr (0, None, False)))"

definition win32Normalize :: "string \<Rightarrow> string" where
  "win32Normalize path =
     (let len = length path in
      if len = 0 then ''.''
      else if len = 1 then (if isPosixPathSeparator (path ! 0) then [bslash] else path)
      else
        (case win32NormalizeRoot path of
           Inl uncRootOnly \<Rightarrow> uncRootOnly
         | Inr (rootEnd, device, isAbsolute) \<Rightarrow>
            (let tail0 = (if rootEnd < len
                          then normalizeString (jsSliceFrom path (int rootEnd)) (\<not> isAbsolute)
                                 bslash isPathSeparator
                          else []);
                 tail1 = (if length tail0 = 0 \<and> \<not> isAbsolute then ''.'' else tail0);
                 tail = (if length tail1 > 0 \<and> isPathSeparator (path ! (len - 1))
                         then tail1 @ [bslash] else tail1)
             in
               if \<not> isAbsolute \<and> device = None \<and> CHR '':'' \<in> set path
                  \<and> ((length tail \<ge> 2 \<and> isWindowsDeviceRoot (tail ! 0) \<and> tail ! 1 = CHR '':'')
                      \<or> colonBeforeSeparatorOrEnd path)
               then CHR ''.'' # bslash # tail
               else if isWindowsReservedName path (indexOfChar (CHR '':'') path)
               then CHR ''.'' # bslash # (case device of Some d \<Rightarrow> d | None \<Rightarrow> []) @ tail
               else
                 (case device of
                    None \<Rightarrow> (if isAbsolute then bslash # tail else tail)
                  | Some d \<Rightarrow> (if isAbsolute then d @ bslash # tail else d @ tail)))))"

text \<open>
  \<^verbatim>\<open>win32.relative(from, to)\<close>. Both paths are resolved, then compared in lower case.
  The source has one more branch, for paths whose lower-case form has another length;
  the ASCII \<open>toLowerCase\<close> keeps the length, so that branch is never taken here.
  \<open>trimLeft\<close> and \<open>trimRightTo\<close> are the loops that skip leading backslashes and find
  the end before trailing backslashes.
\<close>

definition trimLeft :: "string \<Rightarrow> nat" where
  "trimLeft s = length (takeWhile (\<lambda>c. c = bslash) s)"

fun trimRightTo :: "string \<Rightarrow> nat \<Rightarrow> nat \<Rightarrow> nat" where
  "trimRightTo s start 0 = 0"
| "trimRightTo s start (Suc e) =
     (if e > start \<and> s ! e = bslash then trimRightTo s start e else Suc e)"

definition win32Relative :: "runtime \<Rightarrow> string \<Rightarrow> string \<Rightarrow> string" where
  "win32Relative rt from0 to0 =
     (if from0 = to0 then []
      else
        (let fromOrig = win32Resolve rt [from0]; toOrig = win32Resolve rt [to0] in
         if fromOrig = toOrig then []
         else
           (let from = toLowerCase fromOrig; to = toLowerCase toOrig in
            if from = to then []
            else
              (let fromStart = trimLeft from;
                   fromEnd = trimRightTo from fromStart (length from);
                   fromLen = fromEnd - fromStart;
                   toStart = trimLeft to;
                   toEnd = trimRightTo to toStart (length to);
                   toLen = toEnd - toStart;
                   len = (if fromLen < toLen then fromLen else toLen);
                   (i, sep0) = relativeCompare bslash (jsSlice from (int fromStart) (int (fromStart + len)))
                                 (jsSlice to (int toStart) (int (toStart + len))) 0 (- 1)
               in
                 if i \<noteq> len \<and> sep0 = - 1 then toOrig
                 else if i = len \<and> toLen > len \<and> codeAt to (toStart + i) = Some bslash
                 then jsSliceFrom toOrig (int (toStart + i + 1))
                 else if i = len \<and> toLen > len \<and> i = 2
                 then jsSliceFrom toOrig (int (toStart + i))
                 else
                   (let sep1 =
                          (if i = len \<and> fromLen > len then
                             (if codeAt from (fromStart + i) = Some bslash then int i
                              else if i = 2 then 3 else sep0)
                           else sep0);
                        lastCommonSep = (if i = len \<and> sep1 = - 1 then 0 else sep1);
                        start = int fromStart + lastCommonSep + 1;
                        out = (if start \<le> int fromEnd
                               then relativeUps bslash (jsSlice from start (int fromEnd)) []
                               else []);
                        toStart' = int toStart + lastCommonSep
                    in if length out > 0 then out @ jsSlice toOrig toStart' (int toEnd)
                       else if codeAt toOrig (nat toStart') = Some bslash
                       then jsSlice toOrig (toStart' + 1) (int toEnd)
                       else jsSlice toOrig toStart' (int toEnd))))))"

subsection \<open>The platform's own \<^verbatim>\<open>path\<close>\<close>

text \<open>\<^verbatim>\<open>module.exports = isWindows ? win32 : posix\<close>\<close>

definition pathRelative :: "runtime \<Rightarrow> string \<Rightarrow> string \<Rightarrow> string" where
  "pathRelative rt from to =
     (if isWindows rt then win32Relative rt from to else posixRelative rt from to)"

definition pathResolve :: "runtime \<Rightarrow> string list \<Rightarrow> string" where
  "pathResolve rt args = (if isWindows rt then win32Resolve rt args else posixResolve rt args)"

definition pathNormalize :: "runtime \<Rightarrow> string \<Rightarrow> string" where
  "pathNormalize rt path = (if isWindows rt then win32Normalize path else posixNormalize path)"

section \<open>The runtime: percent-decoding and \<^verbatim>\<open>url.parse\<close>\<close>

text \<open>
  What a library call can throw is a value: \<^verbatim>\<open>URIError\<close> (malformed percent-encoding) and
  \<^verbatim>\<open>ERR_INVALID_URL\<close> (a host name that \<^verbatim>\<open>url.parse\<close> rejects).
\<close>

datatype jsError = URIError | ERR_INVALID_URL

definition byteChar :: "nat \<Rightarrow> char" where
  "byteChar n = Char (odd n) (odd (n div 2)) (odd (n div 4)) (odd (n div 8))
                     (odd (n div 16)) (odd (n div 32)) (odd (n div 64)) (odd (n div 128))"

definition hexDigit :: "char \<Rightarrow> nat option" where
  "hexDigit c =
     (if isDigit c then Some (charCode c - 48)
      else if 97 \<le> charCode c \<and> charCode c \<le> 102 then Some (charCode c - 87)
      else if 65 \<le> charCode c \<and> charCode c \<le> 70 then Some (charCode c - 55)
      else None)"

text \<open>\<open>pctByte s\<close>: the byte written by the three characters \<^verbatim>\<open>%XY\<close> at the start of \<open>s\<close>.\<close>

definition pctByte :: "string \<Rightarrow> nat option" where
  "pctByte s =
     (case s of
        c # h # l # _ \<Rightarrow>
          (if c = CHR ''%'' then
             (case hexDigit h of
                Some a \<Rightarrow> (case hexDigit l of Some b \<Rightarrow> Some (16 * a + b) | None \<Rightarrow> None)
              | None \<Rightarrow> None)
           else None)
      | _ \<Rightarrow> None)"

text \<open>
  \<open>continuationBytes n s\<close> reads \<open>n\<close> escapes \<^verbatim>\<open>%XY\<close> whose bytes are UTF-8 continuation
  bytes (\<^verbatim>\<open>10xxxxxx\<close>); \<open>validUtf8\<close> accepts the byte sequences that encode a code point
  (no overlong form, no surrogate, at most U+10FFFF).
\<close>

fun continuationBytes :: "nat \<Rightarrow> string \<Rightarrow> (nat list \<times> string) option" where
  "continuationBytes 0 s = Some ([], s)"
| "continuationBytes (Suc n) s =
     (case pctByte s of
        None \<Rightarrow> None
      | Some b \<Rightarrow>
          (if 128 \<le> b \<and> b < 192 then
             (case continuationBytes n (drop 3 s) of
                None \<Rightarrow> None
              | Some (bs, s') \<Rightarrow> Some (b # bs, s'))
           else None))"

definition validUtf8 :: "nat list \<Rightarrow> bool" where
  "validUtf8 bs =
     (case bs of
        [b0, b1] \<Rightarrow> 194 \<le> b0
      | [b0, b1, b2] \<Rightarrow> (b0 \<noteq> 224 \<or> 160 \<le> b1) \<and> (b0 \<noteq> 237 \<or> b1 < 160)
      | [b0, b1, b2, b3] \<Rightarrow> (b0 \<noteq> 240 \<or> 144 \<le> b1) \<and> (b0 < 244 \<or> (b0 = 244 \<and> b1 < 144))
      | _ \<Rightarrow> False)"

text \<open>
  \<^verbatim>\<open>decodeURIComponent\<close>. A character other than \<^verbatim>\<open>%\<close> is copied. An escape below 0x80 is
  its character; a higher first byte announces a UTF-8 sequence of 2 to 4 bytes, all of
  which must be escapes; the decoded character is, in this model, the bytes themselves.
\<close>

function decodeURIComponent :: "string \<Rightarrow> jsError + string" where
  "decodeURIComponent [] = Inr []"
| "decodeURIComponent (c # cs) =
     (if c \<noteq> CHR ''%'' then
        (case decodeURIComponent cs of Inl e \<Rightarrow> Inl e | Inr r \<Rightarrow> Inr (c # r))
      else
        (case pctByte (c # cs) of
           None \<Rightarrow> Inl URIError
         | Some b \<Rightarrow>
             (if b < 128 then
                (case decodeURIComponent (drop 2 cs) of
                   Inl e \<Rightarrow> Inl e | Inr r \<Rightarrow> Inr (byteChar b # r))
              else if b < 192 \<or> 248 \<le> b then Inl URIError
              else
                (case continuationBytes (if b < 224 then 1 else if b < 240 then 2 else 3)
                        (drop 2 cs) of
                   None \<Rightarrow> Inl URIError
                 | Some (bs, rest) \<Rightarrow>
                     (if validUtf8 (b # bs) \<and> length rest < length (c # cs) then
                        (case decodeURIComponent rest of
                           Inl e \<Rightarrow> Inl e
                         | Inr r \<Rightarrow> Inr (map byteChar (b # bs) @ r))
                      else Inl URIError)))))"
  by pat_completeness auto
termination
  by (relation "measure length") auto

text \<open>
  \<^verbatim>\<open>decode\<close> of the package \<^verbatim>\<open>urlencode\<close>, called without a character set, is
  \<^verbatim>\<open>decodeURIComponent\<close>. The argument \<^verbatim>\<open>null\<close> (\<open>None\<close>) is first converted to the
  string \<^verbatim>\<open>null\<close>, as JavaScript does.
\<close>

definition decode :: "string option \<Rightarrow> jsError + string" where
  "decode str = decodeURIComponent (case str of Some s \<Rightarrow> s | None \<Rightarrow> ''null'')"

subsection \<open>\<^verbatim>\<open>url.parse\<close>\<close>

text \<open>
  The legacy parser of Node.js, after \<^verbatim>\<open>lib/url.js\<close> of Node.js 22. The record has the
  string fields of a \<^verbatim>\<open>Url\<close> object; \<open>None\<close> is \<^verbatim>\<open>null\<close>. The fields \<^verbatim>\<open>query\<close>, \<^verbatim>\<open>path\<close> and
  \<^verbatim>\<open>href\<close> are functions of the others and are left out. The no-break space and the
  byte-order mark, which the parser also trims, are not ASCII and are not treated.
\<close>

record Url =
  protocol :: "string option"
  slashes :: bool
  auth :: "string option"
  host :: "string option"
  port :: "string option"
  hostname :: "string option"
  hash :: "string option"
  search :: "string option"
  pathname :: "string option"

definition emptyUrl :: Url where
  "emptyUrl = \<lparr>protocol = None, slashes = False, auth = None, host = None, port = None,
     hostname = None, hash = None, search = None, pathname = None\<rparr>"

definition truthy :: "string option \<Rightarrow> bool" where
  "truthy v = (case v of Some s \<Rightarrow> length s > 0 | None \<Rightarrow> False)"

definition orEmpty :: "string option \<Rightarrow> string" where
  "orEmpty v = (case v of Some s \<Rightarrow> s | None \<Rightarrow> [])"

definition hostlessProtocol :: "string list" where
  "hostlessProtocol = [''javascript'', ''javascript:'']"

definition unsafeProtocol :: "string list" where
  "unsafeProtocol = [''javascript'', ''javascript:'']"

definition slashedProtocol :: "string list" where
  "slashedProtocol = [''http'', ''http:'', ''https'', ''https:'', ''ftp'', ''ftp:'',
     ''gopher'', ''gopher:'', ''file'', ''file:'', ''ws'', ''ws:'', ''wss'', ''wss:'']"

definition protoIn :: "string option \<Rightarrow> string list \<Rightarrow> bool" where
  "protoIn p ps = (case p of Some s \<Rightarrow> s \<in> set ps | None \<Rightarrow> False)"

definition isUrlWhitespace :: "char \<Rightarrow> bool" where
  "isUrlWhitespace c \<longleftrightarrow> charCode c < 33"

definition isRegexSpace :: "char \<Rightarrow> bool" where
  "isRegexSpace c \<longleftrightarrow> charCode c = 32 \<or> (9 \<le> charCode c \<and> charCode c \<le> 13)"

text \<open>
  The first loop trims white space at both ends and turns the backslashes before the
  first \<^verbatim>\<open>?\<close> or \<^verbatim>\<open>#\<close> into slashes.
\<close>

fun convertBackslashes :: "string \<Rightarrow> string" where
  "convertBackslashes [] = []"
| "convertBackslashes (c # cs) =
     (if c = CHR ''#'' \<or> c = CHR ''?'' then c # cs
      else (if c = bslash then CHR ''/'' else c) # convertBackslashes cs)"

definition urlTrim :: "string \<Rightarrow> string" where
  "urlTrim url = rev (dropWhile isUrlWhitespace (rev (dropWhile isUrlWhitespace url)))"

text \<open>
  \<^verbatim>\<open>simplePathPattern = /^(\/\/?(?!\/)[^?\s]*)(\?[^\s]*)?$/\<close>: the path and the search
  of a string that is only a path.
\<close>

definition simplePath :: "string \<Rightarrow> (string \<times> string) option" where
  "simplePath rest =
     (if codeAt rest 0 = Some CHR ''/'' \<and> take 3 rest \<noteq> ''///'' \<and> \<not> list_ex isRegexSpace rest
      then Some (takeWhile (\<lambda>c. c \<noteq> CHR ''?'') rest, dropWhile (\<lambda>c. c \<noteq> CHR ''?'') rest)
      else None)"

text \<open>\<^verbatim>\<open>protocolPattern = /^[a-z0-9.+-]+:/i\<close> and \<^verbatim>\<open>hostPattern = /^\/\/[^@/]+@[^@/]+/\<close>\<close>

definition isProtocolChar :: "char \<Rightarrow> bool" where
  "isProtocolChar c \<longleftrightarrow> isLetter c \<or> isDigit c \<or> c = CHR ''.'' \<or> c = CHR ''+'' \<or> c = CHR ''-''"

definition protocolMatch :: "string \<Rightarrow> string option" where
  "protocolMatch rest =
     (let p = takeWhile isProtocolChar rest in
      if length p > 0 \<and> codeAt rest (length p) = Some CHR '':'' then Some (p @ '':'') else None)"

definition hostPatternTest :: "string \<Rightarrow> bool" where
  "hostPatternTest rest =
     (take 2 rest = ''//'' \<and>
      (let a = takeWhile (\<lambda>c. c \<noteq> CHR ''@'' \<and> c \<noteq> CHR ''/'') (drop 2 rest) in
       length a > 0 \<and> codeAt rest (2 + length a) = Some CHR ''@'' \<and>
       (case codeAt rest (3 + length a) of
          Some c \<Rightarrow> c \<noteq> CHR ''@'' \<and> c \<noteq> CHR ''/''
        | None \<Rightarrow> False)))"

text \<open>
  The host loop. It drops tabs and line breaks, and stops at the first \<^verbatim>\<open>/\<close>, \<^verbatim>\<open>?\<close> or
  \<^verbatim>\<open>#\<close>. It returns the string (with the dropped characters gone) and \<open>hostEnd\<close>,
  \<open>atSign\<close>, \<open>nonHost\<close>.
\<close>

definition neverInHostname :: "char \<Rightarrow> bool" where
  "neverInHostname c \<longleftrightarrow> c \<in> set ('' \"%;<>^`{|}'' @ [bslash, CHR 0x27])"

fun hostScan :: "string \<Rightarrow> nat \<Rightarrow> string \<Rightarrow> int \<Rightarrow> int \<Rightarrow> string \<times> int \<times> int \<times> int" where
  "hostScan [] i seen atSign nonHost = (seen, - 1, atSign, nonHost)"
| "hostScan (c # cs) i seen atSign nonHost =
     (if c = CHR 0x09 \<or> c = CHR 0x0A \<or> c = CHR 0x0D then hostScan cs i seen atSign nonHost
      else if neverInHostname c
      then hostScan cs (i + 1) (seen @ [c]) atSign (if nonHost = - 1 then int i else nonHost)
      else if c = CHR ''#'' \<or> c = CHR ''/'' \<or> c = CHR ''?''
      then (seen @ c # cs, int i, atSign, if nonHost = - 1 then int i else nonHost)
      else if c = CHR ''@'' then hostScan cs (i + 1) (seen @ [c]) (int i) (- 1)
      else hostScan cs (i + 1) (seen @ [c]) atSign nonHost)"

text \<open>\<^verbatim>\<open>parseHost\<close> with \<^verbatim>\<open>portPattern = /:[0-9]*$/\<close>: \<open>(port, hostname)\<close> of a host.\<close>

definition parseHost :: "string \<Rightarrow> string option \<times> string option" where
  "parseHost h =
     (let digits = rev (takeWhile isDigit (rev h));
          hasPort = (length digits < length h \<and> h ! (length h - length digits - 1) = CHR '':'');
          name = (if hasPort then take (length h - length digits - 1) h else h)
      in (if hasPort \<and> length digits > 0 then Some digits else None,
          if length name > 0 then Some name else None))"

text \<open>
  \<^verbatim>\<open>getHostname\<close>: a host name ends at the first \<^verbatim>\<open>/\<close>, \<^verbatim>\<open>\\<close>, \<^verbatim>\<open>#\<close>, \<^verbatim>\<open>?\<close> or \<^verbatim>\<open>:\<close>; what
  follows goes back to the rest, behind a slash.
\<close>

definition validHostnameChar :: "char \<Rightarrow> bool" where
  "validHostnameChar c \<longleftrightarrow>
     c \<noteq> CHR ''/'' \<and> c \<noteq> bslash \<and> c \<noteq> CHR ''#'' \<and> c \<noteq> CHR ''?'' \<and> c \<noteq> CHR '':''"

definition getHostname :: "string \<Rightarrow> string \<Rightarrow> string \<times> string" where
  "getHostname rest hostname0 =
     (let ok = takeWhile validHostnameChar hostname0 in
      if length ok < length hostname0
      then (ok, CHR ''/'' # drop (length ok) hostname0 @ rest)
      else (hostname0, rest))"

definition isIpv6Hostname :: "string \<Rightarrow> bool" where
  "isIpv6Hostname h \<longleftrightarrow>
     codeAt h 0 = Some CHR ''['' \<and> length h > 0 \<and> codeAt h (length h - 1) = Some CHR '']''"

definition forbiddenHostCharsIpv6 :: "char \<Rightarrow> bool" where
  "forbiddenHostCharsIpv6 c \<longleftrightarrow> c \<in> set ([CHR 0x00, CHR 0x09, CHR 0x0A, CHR 0x0D, bslash] @ '' #%/<>?@^|'')"

definition forbiddenHostChars :: "char \<Rightarrow> bool" where
  "forbiddenHostChars c \<longleftrightarrow> forbiddenHostCharsIpv6 c \<or> c \<in> set '':[]''"

text \<open>\<^verbatim>\<open>autoEscapeStr\<close>: the delimiters and unwise characters of RFC 2396, escaped.\<close>

definition hexUpper :: "nat \<Rightarrow> char" where
  "hexUpper n = ''0123456789ABCDEF'' ! n"

definition pctEncode :: "char \<Rightarrow> string" where
  "pctEncode c = [CHR ''%'', hexUpper (charCode c div 16), hexUpper (charCode c mod 16)]"

definition autoEscaped :: "char \<Rightarrow> bool" where
  "autoEscaped c \<longleftrightarrow>
     c \<in> set ([CHR 0x09, CHR 0x0A, CHR 0x0D, CHR 0x27, bslash] @ '' \"<>^`{|}'')"

definition autoEscapeStr :: "string \<Rightarrow> string" where
  "autoEscapeStr rest = concat (map (\<lambda>c. if autoEscaped c then pctEncode c else [c]) rest)"

text \<open>
  The host part of the parser: from the rest after the protocol and the two slashes to
  the fields \<open>auth\<close>, \<open>host\<close>, \<open>port\<close>, \<open>hostname\<close> and the rest behind the host.
\<close>

definition parseHostPart :: "runtime \<Rightarrow> string \<Rightarrow> Url \<Rightarrow> jsError + (Url \<times> string)" where
  "parseHostPart rt rest0 u =
     (case hostScan rest0 0 [] (- 1) (- 1) of (rest1, hostEnd, atSign, nonHost) \<Rightarrow>
      (case (if atSign \<noteq> - 1 then decodeURIComponent (jsSlice rest1 0 atSign) else Inr []) of
         Inl e \<Rightarrow> Inl e
       | Inr authStr \<Rightarrow>
          (let start = (if atSign \<noteq> - 1 then atSign + 1 else 0);
               host0 = (if nonHost = - 1 then jsSliceFrom rest1 start
                        else jsSlice rest1 start nonHost);
               rest2 = (if nonHost = - 1 then [] else jsSliceFrom rest1 nonHost);
               (port0, hostnameOpt) = parseHost host0;
               hostname0 = orEmpty hostnameOpt;
               ipv6Hostname = isIpv6Hostname hostname0;
               (hostname1, rest3) = (if \<not> ipv6Hostname then getHostname rest2 hostname0
                                     else (hostname0, rest2));
               hostname2 = (if length hostname1 > 255 then [] else toLowerCase hostname1);
               hostname3 = (if length hostname2 > 0 \<and> \<not> ipv6Hostname then toASCII rt hostname2
                            else hostname2)
           in
             if length hostname2 > 0 \<and> ipv6Hostname \<and> list_ex forbiddenHostCharsIpv6 hostname2
             then Inl ERR_INVALID_URL
             else if length hostname2 > 0 \<and> \<not> ipv6Hostname
                     \<and> (length hostname3 = 0 \<or> list_ex forbiddenHostChars hostname3)
             then Inl ERR_INVALID_URL
             else
               Inr (u\<lparr>auth := (if atSign \<noteq> - 1 then Some authStr else None),
                      host := Some (hostname3 @ (case port0 of Some p \<Rightarrow> CHR '':'' # p | None \<Rightarrow> [])),
                      port := port0,
                      hostname := Some (if ipv6Hostname then jsSlice hostname3 1 (- 1) else hostname3)\<rparr>,
                    if ipv6Hostname \<and> codeAt rest3 0 \<noteq> Some CHR ''/'' then CHR ''/'' # rest3
                    else rest3))))"

text \<open>
  The end of the parser: \<open>hash\<close> from the first \<^verbatim>\<open>#\<close>, \<open>search\<close> from the first \<^verbatim>\<open>?\<close> before
  it, \<open>pathname\<close> what stands before both.
\<close>

definition parseTail :: "string option \<Rightarrow> string \<Rightarrow> Url \<Rightarrow> Url" where
  "parseTail lowerProto rest u =
     (let beforeHash = takeWhile (\<lambda>c. c \<noteq> CHR ''#'') rest;
          hashStr = dropWhile (\<lambda>c. c \<noteq> CHR ''#'') rest;
          pathStr = takeWhile (\<lambda>c. c \<noteq> CHR ''?'') beforeHash;
          searchStr = dropWhile (\<lambda>c. c \<noteq> CHR ''?'') beforeHash;
          pathname0 = (if length pathStr > 0 then Some pathStr else None);
          u1 = u\<lparr>hash := (if CHR ''#'' \<in> set rest then Some hashStr else None),
                 search := (if CHR ''?'' \<in> set beforeHash then Some searchStr else None)\<rparr>
      in u1\<lparr>pathname := (if protoIn lowerProto slashedProtocol \<and> truthy (hostname u1)
                              \<and> \<not> truthy pathname0
                           then Some ''/'' else pathname0)\<rparr>)"

definition urlParse :: "runtime \<Rightarrow> string \<Rightarrow> bool \<Rightarrow> jsError + Url" where
  "urlParse rt url slashesDenoteHost =
     (let trimmed = urlTrim url;
          rest0 = convertBackslashes trimmed;
          hasHash = (CHR ''#'' \<in> set trimmed);
          hasAt = (CHR ''@'' \<in> set (takeWhile (\<lambda>c. c \<noteq> CHR ''#'' \<and> c \<noteq> CHR ''?'') trimmed));
          simple = (if \<not> slashesDenoteHost \<and> \<not> hasHash \<and> \<not> hasAt then simplePath rest0 else None)
      in
        case simple of
          Some (p, q) \<Rightarrow>
            Inr (emptyUrl\<lparr>pathname := Some p, search := (if length q > 0 then Some q else None)\<rparr>)
        | None \<Rightarrow>
           (let proto = protocolMatch rest0;
                lowerProto = map_option toLowerCase proto;
                rest1 = (case proto of Some p \<Rightarrow> drop (length p) rest0 | None \<Rightarrow> rest0);
                slashes0 = ((slashesDenoteHost \<or> proto \<noteq> None \<or> hostPatternTest rest1)
                            \<and> take 2 rest1 = ''//'');
                cut = (slashes0 \<and> \<not> (proto \<noteq> None \<and> protoIn lowerProto hostlessProtocol));
                rest2 = (if cut then drop 2 rest1 else rest1);
                u0 = emptyUrl\<lparr>protocol := lowerProto, slashes := cut\<rparr>
            in
              case (if \<not> protoIn lowerProto hostlessProtocol
                       \<and> (slashes0 \<or> (proto \<noteq> None \<and> \<not> protoIn proto slashedProtocol))
                    then parseHostPart rt rest2 u0 else Inr (u0, rest2)) of
                Inl e \<Rightarrow> Inl e
              | Inr (u1, rest3) \<Rightarrow>
                  Inr (parseTail lowerProto
                         (if \<not> protoIn lowerProto unsafeProtocol then autoEscapeStr rest3 else rest3)
                         u1)))"

section \<open>Server to client: \<^verbatim>\<open>convertDebuggerPathToClient\<close>\<close>

text \<open>
  The argument \<^verbatim>\<open>fileUri: string | url.Url\<close> is a URI string or an object already parsed.
  The argument \<^verbatim>\<open>pathMapping?: { [index: string]: string }\<close> is absent (\<open>None\<close>) or an
  object, given as the list of its properties (server path, local path) in the order in
  which they were written, every key once.
\<close>

datatype fileUriArg = UriString string | UriObject Url

type_synonym pathMapping = "(string \<times> string) list"

text \<open>
  Both loops go through \<^verbatim>\<open>Object.keys(pathMapping)\<close>. The keys of an object are listed in
  the order of \<^verbatim>\<open>OrdinaryOwnPropertyKeys\<close>: first the keys that are array indices (the
  decimal numerals, without a leading zero, of the integers from 0 to \<open>2^32 - 2\<close>) in
  ascending numeric order, then the other keys in the order in which they were written.
\<close>

definition arrayIndexValue :: "string \<Rightarrow> int" where
  "arrayIndexValue k = foldl (\<lambda>n c. 10 * n + (of_char c - 48)) 0 k"

definition isArrayIndex :: "string \<Rightarrow> bool" where
  "isArrayIndex k \<longleftrightarrow>
     length k > 0 \<and> list_all isDigit k \<and> (k = ''0'' \<or> hd k \<noteq> CHR ''0'')
     \<and> arrayIndexValue k < 4294967295"

definition objectEntries :: "pathMapping \<Rightarrow> pathMapping" where
  "objectEntries m =
     sort_key (\<lambda>e. arrayIndexValue (fst e)) (filter (\<lambda>e. isArrayIndex (fst e)) m)
     @ filter (\<lambda>e. \<not> isArrayIndex (fst e)) m"

text \<open>
  \<^verbatim>\<open>
  for (const mappedServerPath of Object.keys(pathMapping)) {
      const mappedLocalSource = pathMapping[mappedServerPath]
      // normalize slashes for windows-to-unix
      const serverRelative = (serverIsWindows ? path.win32 : path.posix).relative(mappedServerPath, serverPath)
      if (serverRelative.indexOf('..') !== 0) {
          serverSourceRoot = mappedServerPath
          localSourceRoot = mappedLocalSource
          break
      }
  }\<close>
\<close>

definition serverRelative :: "runtime \<Rightarrow> bool \<Rightarrow> string \<Rightarrow> string \<Rightarrow> string" where
  "serverRelative rt serverIsWindows mappedServerPath serverPath =
     (if serverIsWindows then win32Relative rt mappedServerPath serverPath
      else posixRelative rt mappedServerPath serverPath)"

fun findServerRoot :: "runtime \<Rightarrow> bool \<Rightarrow> string \<Rightarrow> pathMapping \<Rightarrow> (string \<times> string) option" where
  "findServerRoot rt serverIsWindows serverPath [] = None"
| "findServerRoot rt serverIsWindows serverPath ((mappedServerPath, mappedLocalSource) # entries) =
     (if indexOf (serverRelative rt serverIsWindows mappedServerPath serverPath) ''..'' \<noteq> 0
      then Some (mappedServerPath, mappedLocalSource)
      else findServerRoot rt serverIsWindows serverPath entries)"

text \<open>
  \<^verbatim>\<open>
  export function convertDebuggerPathToClient(fileUri, pathMapping) {
      let localSourceRoot, serverSourceRoot
      if (typeof fileUri === 'string') { fileUri = url.parse(fileUri) }
      // convert the file URI to a path
      let serverPath = decode(fileUri.pathname!)
      // strip the trailing slash from Windows paths (indicated by a drive letter with a colon)
      const serverIsWindows = /^\/[a-zA-Z]:\//.test(serverPath)
      if (serverIsWindows) { serverPath = serverPath.substr(1) }
      if (pathMapping) { ... the loop above ... }
      let localPath
      if (serverSourceRoot && localSourceRoot) {
          // get the part of the path that is relative to the source root
          const pathRelativeToSourceRoot = (serverIsWindows ? path.win32 : path.posix).relative(
              serverSourceRoot, serverPath)
          // resolve from the local source root
          localPath = path.resolve(localSourceRoot, pathRelativeToSourceRoot)
      } else {
          localPath = path.normalize(serverPath)
      }
      return localPath
  }\<close>
  An empty string is false in a condition, so a root that is the empty string counts as
  no root.
\<close>

definition serverIsWindowsTest :: "string \<Rightarrow> bool" where
  "serverIsWindowsTest serverPath =
     reTest [Lit CHR ''/'', Class isLetter, Lit CHR '':'', Lit CHR ''/''] serverPath"

definition convertDebuggerPathToClient ::
  "runtime \<Rightarrow> fileUriArg \<Rightarrow> pathMapping option \<Rightarrow> jsError + string" where
  "convertDebuggerPathToClient rt fileUri pathMapping =
     (case (case fileUri of UriString s \<Rightarrow> urlParse rt s False | UriObject u \<Rightarrow> Inr u) of
        Inl e \<Rightarrow> Inl e
      | Inr parsed \<Rightarrow>
         (case decode (pathname parsed) of
            Inl e \<Rightarrow> Inl e
          | Inr serverPath0 \<Rightarrow>
             (let serverIsWindows = serverIsWindowsTest serverPath0;
                  serverPath = (if serverIsWindows then jsSliceFrom serverPath0 1 else serverPath0);
                  root = (case pathMapping of
                            Some entries \<Rightarrow>
                              findServerRoot rt serverIsWindows serverPath (objectEntries entries)
                          | None \<Rightarrow> None)
              in Inr (case root of
                        Some (serverSourceRoot, localSourceRoot) \<Rightarrow>
                          (if length serverSourceRoot > 0 \<and> length localSourceRoot > 0
                           then pathResolve rt
                                  [localSourceRoot,
                                   serverRelative rt serverIsWindows serverSourceRoot serverPath]
                           else pathNormalize rt serverPath)
                      | None \<Rightarrow> pathNormalize rt serverPath))))"

text \<open>
  Two hosts for the examples: a POSIX host and a Windows host whose working directory is
  \<^verbatim>\<open>C:\Users\me\<close>.
\<close>

definition posixHost :: runtime where
  "posixHost = \<lparr>isWindows = False, processCwd = ''/home/me'', processEnv = (\<lambda>name. None),
     toASCII = (\<lambda>h. h)\<rparr>"

definition windowsHost :: runtime where
  "windowsHost = \<lparr>isWindows = True, processCwd = WIN ''C:/Users/me'', processEnv = (\<lambda>name. None),
     toASCII = (\<lambda>h. h)\<rparr>"

section \<open>The runtime: \<^verbatim>\<open>url.resolve\<close>, \<^verbatim>\<open>file-url\<close> and the relativization helper\<close>

subsection \<open>\<^verbatim>\<open>Url.prototype.format\<close>\<close>

fun splitSlash :: "string \<Rightarrow> string list" where
  "splitSlash [] = [[]]"
| "splitSlash (c # cs) =
     (if c = CHR ''/'' then [] # splitSlash cs
      else (case splitSlash cs of s # ss \<Rightarrow> (c # s) # ss | [] \<Rightarrow> [[c]]))"

fun joinSlash :: "string list \<Rightarrow> string" where
  "joinSlash [] = []"
| "joinSlash [s] = s"
| "joinSlash (s # t # ss) = s @ CHR ''/'' # joinSlash (t # ss)"

definition noEscapeAuth :: "char \<Rightarrow> bool" where
  "noEscapeAuth c \<longleftrightarrow> isLetter c \<or> isDigit c \<or> c \<in> set (''!()*-._~:'' @ [CHR 0x27])"

definition encodeAuth :: "string \<Rightarrow> string" where
  "encodeAuth a = concat (map (\<lambda>c. if noEscapeAuth c then [c] else pctEncode c) a)"

definition escapeHashAndQuestion :: "string \<Rightarrow> string" where
  "escapeHashAndQuestion s =
     concat (map (\<lambda>c. if c = CHR ''#'' then ''%23'' else if c = CHR ''?'' then ''%3F'' else [c]) s)"

definition escapeHash :: "string \<Rightarrow> string" where
  "escapeHash s = concat (map (\<lambda>c. if c = CHR ''#'' then ''%23'' else [c]) s)"

definition urlFormat :: "Url \<Rightarrow> string" where
  "urlFormat u =
     (let auth1 = (if truthy (auth u) then encodeAuth (orEmpty (auth u)) @ ''@'' else []);
          protocol0 = orEmpty (protocol u);
          protocol1 = (if length protocol0 > 0 \<and> last protocol0 \<noteq> CHR '':'' then protocol0 @ '':''
                       else protocol0);
          pathname1 = escapeHashAndQuestion (orEmpty (pathname u));
          host1 = (if truthy (host u) then auth1 @ orEmpty (host u)
                   else if truthy (hostname u) then
                     auth1
                     @ (if CHR '':'' \<in> set (orEmpty (hostname u)) \<and> \<not> isIpv6Hostname (orEmpty (hostname u))
                        then ''['' @ orEmpty (hostname u) @ '']'' else orEmpty (hostname u))
                     @ (if truthy (port u) then CHR '':'' # orEmpty (port u) else [])
                   else []);
          slashed = (slashes u \<or> protocol1 \<in> set slashedProtocol);
          pathname2 = (if slashed \<and> (slashes u \<or> length host1 > 0)
                          \<and> length pathname1 > 0 \<and> codeAt pathname1 0 \<noteq> Some CHR ''/''
                       then CHR ''/'' # pathname1 else pathname1);
          host2 = (if slashed \<and> (slashes u \<or> length host1 > 0) then ''//'' @ host1
                   else if slashed \<and> take 4 protocol1 = ''file'' then ''//''
                   else host1);
          search1 = escapeHash (orEmpty (search u));
          search2 = (if length search1 > 0 \<and> codeAt search1 0 \<noteq> Some CHR ''?''
                     then CHR ''?'' # search1 else search1);
          hash1 = orEmpty (hash u);
          hash2 = (if length hash1 > 0 \<and> codeAt hash1 0 \<noteq> Some CHR ''#'' then CHR ''#'' # hash1
                   else hash1)
      in protocol1 @ host2 @ pathname2 @ search2 @ hash2)"

subsection \<open>\<^verbatim>\<open>Url.prototype.resolveObject\<close> and \<^verbatim>\<open>url.resolve\<close>\<close>

text \<open>
  The loop that strips single dots and resolves double dots runs from the last segment
  to the first with the counter \<open>up\<close>; \<open>dotLoop\<close> takes the segments in that order and
  returns the segments that stay, in their order, and the final \<open>up\<close>.
\<close>

fun dotLoop :: "string list \<Rightarrow> nat \<Rightarrow> string list \<Rightarrow> string list \<times> nat" where
  "dotLoop [] up kept = (kept, up)"
| "dotLoop (seg # segs) up kept =
     (if seg = ''.'' then dotLoop segs up kept
      else if seg = ''..'' then dotLoop segs (up + 1) kept
      else if up > 0 then dotLoop segs (up - 1) kept
      else dotLoop segs up (seg # kept))"

definition splitPathname :: "string option \<Rightarrow> string list" where
  "splitPathname p = (if truthy p then splitSlash (orEmpty p) else [])"

definition authInHost :: "string option \<Rightarrow> (string \<times> string) option" where
  "authInHost h =
     (if truthy h \<and> indexOfChar (CHR ''@'') (orEmpty h) > 0
      then Some (takeWhile (\<lambda>c. c \<noteq> CHR ''@'') (orEmpty h),
                 takeWhile (\<lambda>c. c \<noteq> CHR ''@'') (drop 1 (dropWhile (\<lambda>c. c \<noteq> CHR ''@'') (orEmpty h))))
      else None)"

text \<open>
  The branch of \<^verbatim>\<open>resolveObject\<close> for a relative URL with another protocol than the
  source.
\<close>

fun shiftToHost :: "string list \<Rightarrow> string \<times> string list" where
  "shiftToHost [] = ([], [])"
| "shiftToHost (seg # segs) = (if length seg > 0 then (seg, segs) else shiftToHost segs)"

definition resolveOtherProtocol :: "Url \<Rightarrow> Url \<Rightarrow> Url" where
  "resolveOtherProtocol result relative =
     (if \<not> protoIn (protocol relative) slashedProtocol then relative
      else
        (let takeHost = (\<not> truthy (host relative)
                         \<and> protocol relative \<noteq> Some ''file'' \<and> protocol relative \<noteq> Some ''file:''
                         \<and> \<not> protoIn (protocol relative) hostlessProtocol);
             (host0, relPath0) = shiftToHost (splitSlash (orEmpty (pathname relative)));
             relPath1 = (if (case relPath0 of seg # _ \<Rightarrow> seg \<noteq> [] | [] \<Rightarrow> True) then [] # relPath0
                         else relPath0);
             relPath2 = (if length relPath1 < 2 then [] # relPath1 else relPath1);
             relHost = (if takeHost then Some host0 else host relative);
             relHostname = (if takeHost \<and> \<not> truthy (hostname relative) then Some []
                            else hostname relative)
         in result\<lparr>protocol := protocol relative,
                   pathname := (if takeHost then Some (joinSlash relPath2) else pathname relative),
                   search := search relative,
                   host := Some (orEmpty relHost),
                   auth := auth relative,
                   hostname := (if truthy relHostname then relHostname else relHost),
                   port := port relative,
                   slashes := (slashes result \<or> slashes relative)\<rparr>))"

text \<open>
  The end of \<^verbatim>\<open>resolveObject\<close>, from the test for an empty path on: the dots are
  resolved, the leading and trailing empty segments are set, the path is joined.
\<close>

definition firstIs :: "string \<Rightarrow> string list \<Rightarrow> bool" where
  "firstIs seg segs = (case segs of s # _ \<Rightarrow> s = seg | [] \<Rightarrow> False)"

definition firstStartsWithSlash :: "string list \<Rightarrow> bool" where
  "firstStartsWithSlash segs = (case segs of s # _ \<Rightarrow> codeAt s 0 = Some CHR ''/'' | [] \<Rightarrow> False)"

definition resolveDots :: "Url \<Rightarrow> Url \<Rightarrow> string list \<Rightarrow> bool \<Rightarrow> bool \<Rightarrow> bool \<Rightarrow> Url" where
  "resolveDots result relative srcPath0 mustEndAbs0 removeAllDots noLeadingSlashes =
     (if length srcPath0 = 0 then result\<lparr>pathname := None\<rparr>
      else
        (let lastSeg = last srcPath0;
             hasTrailingSlash =
               (((truthy (host result) \<or> truthy (host relative) \<or> length srcPath0 > 1)
                 \<and> (lastSeg = ''.'' \<or> lastSeg = ''..'')) \<or> lastSeg = []);
             (srcPath1, up) = dotLoop (rev srcPath0) 0 [];
             srcPath2 = (if \<not> mustEndAbs0 \<and> \<not> removeAllDots then replicate up ''..'' @ srcPath1
                         else srcPath1);
             srcPath3 = (if mustEndAbs0 \<and> \<not> firstIs [] srcPath2 \<and> \<not> firstStartsWithSlash srcPath2
                         then [] # srcPath2 else srcPath2);
             joined = joinSlash srcPath3;
             srcPath4 = (if hasTrailingSlash \<and> (length joined = 0 \<or> last joined \<noteq> CHR ''/'')
                         then srcPath3 @ [[]] else srcPath3);
             isAbsolute = (firstIs [] srcPath4 \<or> firstStartsWithSlash srcPath4);
             hostSeg = (if isAbsolute then Some []
                        else (case srcPath4 of seg # _ \<Rightarrow> Some seg | [] \<Rightarrow> Some []));
             srcPath5 = (if noLeadingSlashes \<and> \<not> isAbsolute then drop 1 srcPath4 else srcPath4);
             result1 = (if noLeadingSlashes then
                          (case authInHost hostSeg of
                             Some (a, b) \<Rightarrow> result\<lparr>auth := Some a, host := Some b, hostname := Some b\<rparr>
                           | None \<Rightarrow> result\<lparr>host := hostSeg, hostname := hostSeg\<rparr>)
                        else result);
             mustEndAbs1 = (mustEndAbs0 \<or> (truthy (host result1) \<and> length srcPath5 > 0));
             srcPath6 = (if mustEndAbs1 \<and> \<not> isAbsolute then [] # srcPath5 else srcPath5)
         in result1\<lparr>pathname := (if length srcPath6 = 0 then None else Some (joinSlash srcPath6)),
                    auth := (if truthy (auth relative) then auth relative else auth result1),
                    slashes := (slashes result1 \<or> slashes relative)\<rparr>))"

text \<open>
  The main part of \<^verbatim>\<open>resolveObject\<close>: the relative URL has no other protocol than the
  source and does not start with two slashes.
\<close>

definition hostIntoPath :: "string option \<Rightarrow> string list \<Rightarrow> string list" where
  "hostIntoPath h segs =
     (case segs of
        seg # rest \<Rightarrow> (if seg = [] then orEmpty h # rest else orEmpty h # seg # rest)
      | [] \<Rightarrow> [orEmpty h])"

definition resolvePath :: "Url \<Rightarrow> Url \<Rightarrow> Url" where
  "resolvePath result0 relative0 =
     (let isSourceAbs = (truthy (pathname result0) \<and> codeAt (orEmpty (pathname result0)) 0 = Some CHR ''/'');
          isRelAbs = (truthy (host relative0)
                      \<or> (truthy (pathname relative0) \<and> codeAt (orEmpty (pathname relative0)) 0 = Some CHR ''/''));
          mustEndAbs0 = (isRelAbs \<or> isSourceAbs \<or> (truthy (host result0) \<and> truthy (pathname relative0)));
          removeAllDots = mustEndAbs0;
          srcPath0 = splitPathname (pathname result0);
          relPath0 = splitPathname (pathname relative0);
          noLeadingSlashes = (truthy (protocol result0) \<and> \<not> protoIn (protocol result0) slashedProtocol);
          srcPath1 = (if noLeadingSlashes \<and> truthy (host result0) then hostIntoPath (host result0) srcPath0
                      else srcPath0);
          result1 = (if noLeadingSlashes
                     then result0\<lparr>hostname := Some [], port := None, host := Some [],
                                  auth := (if truthy (protocol relative0) then None else auth result0)\<rparr>
                     else result0);
          relPath1 = (if noLeadingSlashes \<and> truthy (protocol relative0) \<and> truthy (host relative0)
                      then hostIntoPath (host relative0) relPath0
                      else relPath0);
          relative1 = (if noLeadingSlashes \<and> truthy (protocol relative0)
                       then relative0\<lparr>hostname := None, port := None, host := None\<rparr>
                       else relative0);
          mustEndAbs1 = (if noLeadingSlashes
                         then mustEndAbs0 \<and> (firstIs [] relPath1 \<or> firstIs [] srcPath1)
                         else mustEndAbs0)
      in
        if isRelAbs then
          resolveDots
            (result1\<lparr>host := (if host relative1 \<noteq> None then host relative1 else host result1),
                     port := (if host relative1 \<noteq> None then port relative1 else port result1),
                     auth := (if (host relative1 \<noteq> None \<and> host result1 \<noteq> host relative1)
                                 \<or> (hostname relative1 \<noteq> None \<and> hostname result1 \<noteq> hostname relative1)
                              then None else auth result1),
                     hostname := (if hostname relative1 \<noteq> None then hostname relative1
                                  else hostname result1),
                     search := search relative1\<rparr>)
            relative1 relPath1 mustEndAbs1 removeAllDots noLeadingSlashes
        else if length relPath1 > 0 then
          resolveDots (result1\<lparr>search := search relative1\<rparr>) relative1
            (butlast srcPath1 @ relPath1) mustEndAbs1 removeAllDots noLeadingSlashes
        else if search relative1 \<noteq> None then
          (let result2 =
                 (if noLeadingSlashes then
                    (let h = (case srcPath1 of seg # _ \<Rightarrow> Some seg | [] \<Rightarrow> None) in
                     case authInHost h of
                       Some (a, b) \<Rightarrow> result1\<lparr>auth := Some a, host := Some b, hostname := Some b\<rparr>
                     | None \<Rightarrow> result1\<lparr>host := h, hostname := h\<rparr>)
                  else result1)
           in result2\<lparr>search := search relative1\<rparr>)
        else
          resolveDots result1 relative1 srcPath1 mustEndAbs1 removeAllDots noLeadingSlashes)"

definition resolveObject :: "Url \<Rightarrow> Url \<Rightarrow> Url" where
  "resolveObject source relative =
     (let result = source\<lparr>hash := hash relative\<rparr> in
      if urlFormat relative = [] then result
      else if slashes relative \<and> \<not> truthy (protocol relative) then
        (let r = relative\<lparr>protocol := protocol result\<rparr> in
         if protoIn (protocol r) slashedProtocol \<and> truthy (hostname r) \<and> \<not> truthy (pathname r)
         then r\<lparr>pathname := Some ''/''\<rparr> else r)
      else if truthy (protocol relative) \<and> protocol relative \<noteq> protocol result
      then resolveOtherProtocol result relative
      else resolvePath result relative)"

text \<open>
  \<^verbatim>\<open>url.resolve(source, relative)\<close> is
  \<^verbatim>\<open>urlParse(source, false, true).resolveObject(urlParse(relative, false, true)).format()\<close>.
\<close>

definition urlResolve :: "runtime \<Rightarrow> string \<Rightarrow> string \<Rightarrow> jsError + string" where
  "urlResolve rt source relative =
     (case urlParse rt source True of
        Inl e \<Rightarrow> Inl e
      | Inr src \<Rightarrow>
         (case urlParse rt relative True of
            Inl e \<Rightarrow> Inl e
          | Inr rel \<Rightarrow> Inr (urlFormat (resolveObject src rel))))"

subsection \<open>\<^verbatim>\<open>file-url\<close>\<close>

text \<open>
  \<^verbatim>\<open>fileUrl(path, { resolve: false })\<close> of the package \<^verbatim>\<open>file-url\<close> (version 2): backslashes
  become slashes, a path that does not start with a slash gets one, the result is
  \<^verbatim>\<open>encodeURI('file://' + pathName)\<close> with \<^verbatim>\<open>?\<close> and \<^verbatim>\<open>#\<close> escaped as well.
  \<^verbatim>\<open>encodeURI\<close> keeps letters, digits and \<^verbatim>\<open>;/?:@&=+$,-_.!~*'()#\<close> and writes every other
  byte as \<^verbatim>\<open>%XX\<close>.
\<close>

definition uriKept :: "char \<Rightarrow> bool" where
  "uriKept c \<longleftrightarrow> isLetter c \<or> isDigit c \<or> c \<in> set ('';/?:@&=+$,-_.!~*()#'' @ [CHR 0x27])"

definition encodeURI :: "string \<Rightarrow> string" where
  "encodeURI s = concat (map (\<lambda>c. if uriKept c then [c] else pctEncode c) s)"

definition fileUrl :: "string \<Rightarrow> string" where
  "fileUrl filePath =
     (let pathName0 = replaceChar bslash (CHR ''/'') filePath;
          pathName = (if codeAt pathName0 0 \<noteq> Some CHR ''/'' then CHR ''/'' # pathName0 else pathName0)
      in escapeHashAndQuestion (encodeURI (''file://'' @ pathName)))"

subsection \<open>The relativization helper\<close>

text \<open>
  Modelled from the spec: \<^verbatim>\<open>RelateUrl.relate\<close> of the package \<^verbatim>\<open>relateurl\<close>, which
  \<^verbatim>\<open>relativeUrl\<close> calls with the fixed options \<^verbatim>\<open>RELATE_URL_OPTIONS\<close> (output
  \<^verbatim>\<open>PATH_RELATIVE\<close>, \<^verbatim>\<open>removeRootTrailingSlash: false\<close>, \<^verbatim>\<open>defaultPorts: {}\<close>), is not under
  \<^verbatim>\<open>src/\<close>. The specification (4.3) describes it under these options: it computes a path-relative reference between two
  absolute URIs such that resolving the reference against the first URI reproduces the
  second; the reference is never root-relative but always the minimal \<^verbatim>\<open>../\<close>-prefixed
  or bare relative path; a trailing slash of the root is kept; ports are significant.

  The model: when the two URIs agree in scheme and authority (user, host and port as
  written), the directories of the first path (its segments but the last) are compared
  with those of the second; the reference is one \<^verbatim>\<open>..\<close> for every directory of the
  first path outside the common prefix, then the remaining segments of the second path,
  then its query and fragment. A reference that would be empty for a different path is
  \<^verbatim>\<open>./\<close>. Two URIs that differ in scheme or authority have no path-relative reference;
  the second URI is returned.
\<close>

fun commonPrefixLength :: "string list \<Rightarrow> string list \<Rightarrow> nat" where
  "commonPrefixLength (x # xs) (y # ys) = (if x = y then Suc (commonPrefixLength xs ys) else 0)"
| "commonPrefixLength [] ys = 0"
| "commonPrefixLength xs [] = 0"

definition relativePath :: "string \<Rightarrow> string \<Rightarrow> string" where
  "relativePath fromPath toPath =
     (let fromDirs = butlast (splitSlash fromPath);
          toSegments = splitSlash toPath;
          c = commonPrefixLength fromDirs (butlast toSegments)
      in joinSlash (replicate (length fromDirs - c) ''..'' @ drop c toSegments))"

definition relate :: "runtime \<Rightarrow> string \<Rightarrow> string \<Rightarrow> jsError + string" where
  "relate rt from to =
     (case urlParse rt from True of
        Inl e \<Rightarrow> Inl e
      | Inr f \<Rightarrow>
         (case urlParse rt to True of
            Inl e \<Rightarrow> Inl e
          | Inr t \<Rightarrow>
             (if protocol f = protocol t \<and> slashes f = slashes t \<and> auth f = auth t \<and> host f = host t
              then
                (let p = relativePath (orEmpty (pathname f)) (orEmpty (pathname t)) in
                 Inr ((if length p = 0 \<and> pathname f \<noteq> pathname t then ''./'' else p)
                      @ orEmpty (search t) @ orEmpty (hash t)))
              else Inr to)))"

text \<open>
  \<^verbatim>\<open>const relativeUrl = (from, to) => RelateUrl.relate(from, to, RELATE_URL_OPTIONS)\<close>
\<close>

definition relativeUrl :: "runtime \<Rightarrow> string \<Rightarrow> string \<Rightarrow> jsError + string" where
  "relativeUrl rt from to = relate rt from to"

section \<open>Client to server: \<^verbatim>\<open>convertClientPathToDebugger\<close>\<close>

text \<open>\<^verbatim>\<open>s.replace(/^[A-Z]:\\/, match => match.toLowerCase())\<close>\<close>

definition lowerDriveLetter :: "string \<Rightarrow> string" where
  "lowerDriveLetter s =
     (if reTest [Class isUpperAZ, Lit CHR '':'', Lit bslash] s
      then toLowerCase (take 3 s) @ drop 3 s else s)"

text \<open>
  \<^verbatim>\<open>
  for (const mappedServerPath of Object.keys(pathMapping)) {
      const mappedLocalSource = pathMapping[mappedServerPath]
      const localRelative = path.relative(mappedLocalSource, localPath)
      if (localRelative.indexOf('..') !== 0) {
          serverSourceRoot = mappedServerPath
          localSourceRoot = mappedLocalSource
          break
      }
  }\<close>
\<close>

fun findLocalRoot :: "runtime \<Rightarrow> string \<Rightarrow> pathMapping \<Rightarrow> (string \<times> string) option" where
  "findLocalRoot rt localPath [] = None"
| "findLocalRoot rt localPath ((mappedServerPath, mappedLocalSource) # entries) =
     (if indexOf (pathRelative rt mappedLocalSource localPath) ''..'' \<noteq> 0
      then Some (mappedServerPath, mappedLocalSource)
      else findLocalRoot rt localPath entries)"

definition withTrailingSlash :: "string \<Rightarrow> string" where
  "withTrailingSlash u = (if length u > 0 \<and> last u = CHR ''/'' then u else u @ ''/'')"

text \<open>
  \<^verbatim>\<open>
  export function convertClientPathToDebugger(localPath, pathMapping) {
      let localSourceRoot, serverSourceRoot
      // XDebug always lowercases Windows drive letters in file URIs
      let localFileUri = fileUrl(
          localPath.replace(/^[A-Z]:\\/, match => match.toLowerCase()), { resolve: false })
      let serverFileUri
      if (pathMapping) { ... the loop above ... }
      if (localSourceRoot) {
          localSourceRoot = localSourceRoot.replace(/^[A-Z]:\\/, match => match.toLowerCase())
      }
      if (serverSourceRoot) {
          serverSourceRoot = serverSourceRoot.replace(/^[A-Z]:\\/, match => match.toLowerCase())
      }
      if (serverSourceRoot && localSourceRoot) {
          let localSourceRootUrl = fileUrl(localSourceRoot, { resolve: false })
          if (!localSourceRootUrl.endsWith('/')) { localSourceRootUrl += '/' }
          let serverSourceRootUrl = fileUrl(serverSourceRoot, { resolve: false })
          if (!serverSourceRootUrl.endsWith('/')) { serverSourceRootUrl += '/' }
          // get the part of the path that is relative to the source root
          const urlRelativeToSourceRoot = relativeUrl(localSourceRootUrl, localFileUri)
          // resolve from the server source root
          serverFileUri = url.resolve(serverSourceRootUrl, urlRelativeToSourceRoot)
      } else {
          serverFileUri = localFileUri
      }
      return serverFileUri
  }\<close>
\<close>

definition convertClientPathToDebugger ::
  "runtime \<Rightarrow> string \<Rightarrow> pathMapping option \<Rightarrow> jsError + string" where
  "convertClientPathToDebugger rt localPath pathMapping =
     (let localFileUri = fileUrl (lowerDriveLetter localPath);
          root = (case pathMapping of
                    Some entries \<Rightarrow> findLocalRoot rt localPath (objectEntries entries)
                  | None \<Rightarrow> None)
      in case root of
           Some (serverSourceRoot0, localSourceRoot0) \<Rightarrow>
             (let localSourceRoot = lowerDriveLetter localSourceRoot0;
                  serverSourceRoot = lowerDriveLetter serverSourceRoot0
              in if length serverSourceRoot > 0 \<and> length localSourceRoot > 0 then
                   (let localSourceRootUrl = withTrailingSlash (fileUrl localSourceRoot);
                        serverSourceRootUrl = withTrailingSlash (fileUrl serverSourceRoot)
                    in case relativeUrl rt localSourceRootUrl localFileUri of
                         Inl e \<Rightarrow> Inl e
                       | Inr urlRelativeToSourceRoot \<Rightarrow>
                           urlResolve rt serverSourceRootUrl urlRelativeToSourceRoot)
                 else Inr localFileUri)
         | None \<Rightarrow> Inr localFileUri)"

section \<open>URI equality: \<^verbatim>\<open>isWindowsUri\<close> and \<^verbatim>\<open>isSameUri\<close>\<close>

text \<open>
  \<^verbatim>\<open>function isWindowsUri(path) { return /^file:\/\/\/[a-zA-Z]:\//.test(path) }\<close>
\<close>

definition isWindowsUri :: "string \<Rightarrow> bool" where
  "isWindowsUri path = reTest (lits ''file:///'' @ [Class isLetter, Lit CHR '':'', Lit CHR ''/'']) path"

text \<open>
  \<^verbatim>\<open>
  export function isSameUri(clientUri, debuggerUri) {
      if (isWindowsUri(clientUri) || isWindowsUri(debuggerUri)) {
          return debuggerUri.toLowerCase() === clientUri.toLowerCase()
      } else {
          return debuggerUri === clientUri
      }
  }\<close>
\<close>

definition isSameUri :: "string \<Rightarrow> string \<Rightarrow> bool" where
  "isSameUri clientUri debuggerUri =
     (if isWindowsUri clientUri \<or> isWindowsUri debuggerUri
      then toLowerCase debuggerUri = toLowerCase clientUri
      else debuggerUri = clientUri)"

text \<open>
  The specification's wording of the Windows-file-URI pattern: the string starts with
  \<^verbatim>\<open>file:///\<close>, then one letter of A-Z or a-z, then \<^verbatim>\<open>:/\<close>.
\<close>

definition matchesWindowsFileUriPattern :: "string \<Rightarrow> bool" where
  "matchesWindowsFileUriPattern s \<longleftrightarrow>
     (\<exists>c rest. (isUpperAZ c \<or> isLowerAZ c) \<and> s = ''file:///'' @ c # '':/'' @ rest)"

section \<open>Notions of the specification\<close>

text \<open>
  The test of both root-matching loops, in the specification's words: the relative path
  does not start with \<^verbatim>\<open>..\<close>. An entry of the mapping is selected when the relative
  path from its root to the path passes the test.
\<close>

definition startsWithDotDot :: "string \<Rightarrow> bool" where
  "startsWithDotDot s \<longleftrightarrow> take 2 s = ''..''"

definition serverSelects :: "runtime \<Rightarrow> bool \<Rightarrow> string \<Rightarrow> string \<times> string \<Rightarrow> bool" where
  "serverSelects rt serverIsWindows serverPath entry \<longleftrightarrow>
     \<not> startsWithDotDot (serverRelative rt serverIsWindows (fst entry) serverPath)"

definition localSelects :: "runtime \<Rightarrow> string \<Rightarrow> string \<times> string \<Rightarrow> bool" where
  "localSelects rt localPath entry \<longleftrightarrow>
     \<not> startsWithDotDot (pathRelative rt (snd entry) localPath)"


text \<open>
  The server path that \<open>convertDebuggerPathToClient\<close> takes from its first argument before it
  looks at the mapping: whether the decoded path is a Windows path, and the path.
\<close>

definition serverPathOf :: "runtime \<Rightarrow> fileUriArg \<Rightarrow> jsError + bool \<times> string" where
  "serverPathOf rt fileUri =
     (case (case fileUri of UriString s \<Rightarrow> urlParse rt s False | UriObject u \<Rightarrow> Inr u) of
        Inl e \<Rightarrow> Inl e
      | Inr parsed \<Rightarrow>
         (case decode (pathname parsed) of
            Inl e \<Rightarrow> Inl e
          | Inr serverPath0 \<Rightarrow>
              Inr (serverIsWindowsTest serverPath0,
                   if serverIsWindowsTest serverPath0 then jsSliceFrom serverPath0 1 else serverPath0)))"

text \<open>
  "At or below in the directory tree", for POSIX paths written without \<^verbatim>\<open>.\<close> and \<^verbatim>\<open>..\<close>
  segments: the names of the root are the first names of the path.
\<close>

definition pathNames :: "string \<Rightarrow> string list" where
  "pathNames p = filter (\<lambda>name. name \<noteq> []) (splitSlash p)"

definition atOrBelow :: "string \<Rightarrow> string \<Rightarrow> bool" where
  "atOrBelow root p \<longleftrightarrow> take (length (pathNames root)) (pathNames p) = pathNames root"

text \<open>
  The URIs that the relativization helper is given by this module are file URIs with an
  empty authority. Such a URI is written from the names of its path: \<open>fileUriOf names dir\<close>
  is \<^verbatim>\<open>file:///name1/.../namek\<close>, with a trailing slash when \<open>dir\<close>. A plain name is made of
  letters, digits, dots, hyphens and underscores and is neither \<^verbatim>\<open>.\<close> nor \<^verbatim>\<open>..\<close>; a root
  name may also hold colons (a drive, \<^verbatim>\<open>c:\<close>). \<open>fileUrlObject p\<close> is what \<^verbatim>\<open>url.parse\<close> makes of
  such a URI with path \<open>p\<close>.

  A path-relative reference has no scheme and does not start with a slash (so it is
  neither an absolute URI, nor a reference with an authority, nor a root-relative one).
\<close>

definition plainChar :: "char \<Rightarrow> bool" where
  "plainChar c \<longleftrightarrow> isLetter c \<or> isDigit c \<or> c = CHR ''.'' \<or> c = CHR ''-'' \<or> c = CHR ''_''"

definition pathChar :: "char \<Rightarrow> bool" where
  "pathChar c \<longleftrightarrow> plainChar c \<or> c = CHR '':'' \<or> c = CHR ''/''"

definition plainName :: "string \<Rightarrow> bool" where
  "plainName s \<longleftrightarrow> s \<noteq> [] \<and> s \<noteq> ''.'' \<and> s \<noteq> ''..'' \<and> list_all plainChar s"

definition rootName :: "string \<Rightarrow> bool" where
  "rootName s \<longleftrightarrow> s \<noteq> [] \<and> s \<noteq> ''.'' \<and> s \<noteq> ''..'' \<and> list_all (\<lambda>c. plainChar c \<or> c = CHR '':'') s"

definition fileUriOf :: "string list \<Rightarrow> bool \<Rightarrow> string" where
  "fileUriOf names dir = ''file://'' @ joinSlash ([] # names @ (if dir then [[]] else []))"

definition isPathRelativeReference :: "string \<Rightarrow> bool" where
  "isPathRelativeReference r \<longleftrightarrow> protocolMatch r = None \<and> take 1 r \<noteq> ''/''"

definition fileUrlObject :: "string \<Rightarrow> Url" where
  "fileUrlObject p = \<lparr>protocol = Some ''file:'', slashes = True, auth = None, host = Some [],
     port = None, hostname = Some [], hash = None, search = None, pathname = Some p\<rparr>"

section \<open>Properties of URI equality\<close>

lemma reTest_lits_append:
  "reTest (lits p @ items) s \<longleftrightarrow> (\<exists>r. s = p @ r \<and> reTest items r)"
proof (induction p arbitrary: s)
  case Nil
  show ?case by (simp add: lits_def)
next
  case (Cons a p)
  show ?case
  proof (cases s)
    case Nil
    then show ?thesis by (simp add: lits_def)
  next
    case (Cons c cs)
    with Cons.IH [of cs] show ?thesis by (auto simp: lits_def)
  qed
qed

lemma reTest_class_colon_slash:
  "reTest [Class p, Lit a, Lit b] s \<longleftrightarrow> (\<exists>c rest. p c \<and> s = c # a # b # rest)"
proof (cases s)
  case Nil
  then show ?thesis by simp
next
  case (Cons c1 s1)
  show ?thesis
  proof (cases s1)
    case Nil
    with Cons show ?thesis by simp
  next
    case (Cons c2 s2)
    with \<open>s = c1 # s1\<close> show ?thesis by (cases s2) auto
  qed
qed

lemma isWindowsUri_pattern: "isWindowsUri s \<longleftrightarrow> matchesWindowsFileUriPattern s"
  unfolding isWindowsUri_def matchesWindowsFileUriPattern_def
    reTest_lits_append reTest_class_colon_slash isLetter_def
  by auto

lemma isWindowsUri_upper_example: "isWindowsUri ''file:///C:/Foo/Bar.php''"
  by (simp add: isWindowsUri_def lits_def isLetter_def isLowerAZ_def isUpperAZ_def charCode_def)

lemma isWindowsUri_posix_examples:
  "\<not> isWindowsUri ''file:///home/Foo.php''" "\<not> isWindowsUri ''file:///home/foo.php''"
  by (simp_all add: isWindowsUri_def lits_def isLetter_def isLowerAZ_def isUpperAZ_def charCode_def)

text \<open>
  Claim C3. For every pair of URI strings, \<open>isSameUri\<close> compares the two fully
  lower-cased strings when at least one of them matches the Windows-file-URI pattern
  \<^verbatim>\<open>^file:///[A-Za-z]:/\<close>, and compares the strings exactly otherwise. In particular
  \<^verbatim>\<open>file:///C:/Foo/Bar.php\<close> and \<^verbatim>\<open>file:///c:/foo/bar.php\<close> are the same URI, while
  \<^verbatim>\<open>file:///home/Foo.php\<close> and \<^verbatim>\<open>file:///home/foo.php\<close> are not.
\<close>

theorem isSameUri_rule:
  "isSameUri clientUri debuggerUri =
     (if matchesWindowsFileUriPattern clientUri \<or> matchesWindowsFileUriPattern debuggerUri
      then toLowerCase debuggerUri = toLowerCase clientUri
      else debuggerUri = clientUri)
   \<and> isSameUri ''file:///C:/Foo/Bar.php'' ''file:///c:/foo/bar.php''
   \<and> \<not> isSameUri ''file:///home/Foo.php'' ''file:///home/foo.php''"
proof (intro conjI)
  show "isSameUri clientUri debuggerUri =
     (if matchesWindowsFileUriPattern clientUri \<or> matchesWindowsFileUriPattern debuggerUri
      then toLowerCase debuggerUri = toLowerCase clientUri
      else debuggerUri = clientUri)"
    by (simp add: isSameUri_def isWindowsUri_pattern)
  show "isSameUri ''file:///C:/Foo/Bar.php'' ''file:///c:/foo/bar.php''"
    by (simp add: isSameUri_def isWindowsUri_upper_example toLowerCase_def isUpperAZ_def
        charCode_def)
  show "\<not> isSameUri ''file:///home/Foo.php'' ''file:///home/foo.php''"
    by (simp add: isSameUri_def isWindowsUri_posix_examples)
qed

theorem isSameUri_rule_witness:
  "isSameUri ''file:///D:/Web/Index.PHP'' ''file:///d:/web/index.php''
   \<and> \<not> isSameUri ''file:///srv/Index.php'' ''file:///srv/index.php''"
proof -
  have w: "matchesWindowsFileUriPattern ''file:///D:/Web/Index.PHP''"
    unfolding matchesWindowsFileUriPattern_def
    by (rule exI [of _ "CHR ''D''"], rule exI [of _ "''Web/Index.PHP''"])
      (simp add: isUpperAZ_def charCode_def)
  have p: "\<not> matchesWindowsFileUriPattern ''file:///srv/Index.php''"
      "\<not> matchesWindowsFileUriPattern ''file:///srv/index.php''"
    by (simp_all add: matchesWindowsFileUriPattern_def)
  have a: "isSameUri ''file:///D:/Web/Index.PHP'' ''file:///d:/web/index.php''"
    using isSameUri_rule [of "''file:///D:/Web/Index.PHP''" "''file:///d:/web/index.php''"] w
    by (simp add: toLowerCase_def isUpperAZ_def charCode_def)
  have b: "\<not> isSameUri ''file:///srv/Index.php'' ''file:///srv/index.php''"
    using isSameUri_rule [of "''file:///srv/Index.php''" "''file:///srv/index.php''"] p
    by simp
  show ?thesis using a b by simp
qed

section \<open>The root-matching loops\<close>

lemma objectEntries_single: "objectEntries [e] = [e]"
  by (simp add: objectEntries_def)

lemma objectEntries_no_index:
  "list_all (\<lambda>e. \<not> isArrayIndex (fst e)) m \<Longrightarrow> objectEntries m = m"
proof -
  assume a: "list_all (\<lambda>e. \<not> isArrayIndex (fst e)) m"
  then have "filter (\<lambda>e. isArrayIndex (fst e)) m = []"
    by (induction m) auto
  moreover from a have "filter (\<lambda>e. \<not> isArrayIndex (fst e)) m = m"
    by (induction m) auto
  ultimately show ?thesis by (simp add: objectEntries_def)
qed

lemma indexOfFrom_range: "indexOfFrom pat s i = - 1 \<or> int i \<le> indexOfFrom pat s i"
proof (induction s arbitrary: i)
  case Nil
  show ?case by simp
next
  case (Cons c cs)
  from Cons.IH [of "i + 1"] show ?case by auto
qed

lemma indexOf_dotdot: "indexOf s ''..'' \<noteq> 0 \<longleftrightarrow> \<not> startsWithDotDot s"
proof (cases s)
  case Nil
  then show ?thesis by (simp add: indexOf_def startsWithDotDot_def)
next
  case (Cons c cs)
  from indexOfFrom_range [of "''..''" cs 1]
  have "indexOfFrom ''..'' cs 1 \<noteq> 0" by auto
  with Cons show ?thesis by (auto simp: indexOf_def startsWithDotDot_def)
qed

lemma findServerRoot_Some_iff:
  "findServerRoot rt w p m = Some e \<longleftrightarrow>
     (\<exists>before after. m = before @ e # after \<and> serverSelects rt w p e
        \<and> list_all (\<lambda>e'. \<not> serverSelects rt w p e') before)"
proof (induction m)
  case Nil
  show ?case by simp
next
  case (Cons a m)
  obtain k v where a: "a = (k, v)" by (cases a)
  show ?case
  proof (cases "serverSelects rt w p a")
    case True
    then have "findServerRoot rt w p (a # m) = Some a"
      by (simp add: a serverSelects_def indexOf_dotdot)
    moreover have "(\<exists>before after. a # m = before @ e # after \<and> serverSelects rt w p e
        \<and> list_all (\<lambda>e'. \<not> serverSelects rt w p e') before) \<longleftrightarrow> e = a"
      using True by (auto simp: Cons_eq_append_conv)
    ultimately show ?thesis by auto
  next
    case False
    then have "findServerRoot rt w p (a # m) = findServerRoot rt w p m"
      by (simp add: a serverSelects_def indexOf_dotdot)
    moreover have "(\<exists>before after. a # m = before @ e # after \<and> serverSelects rt w p e
        \<and> list_all (\<lambda>e'. \<not> serverSelects rt w p e') before) \<longleftrightarrow>
       (\<exists>before after. m = before @ e # after \<and> serverSelects rt w p e
        \<and> list_all (\<lambda>e'. \<not> serverSelects rt w p e') before)"
    proof
      assume "\<exists>before after. a # m = before @ e # after \<and> serverSelects rt w p e
        \<and> list_all (\<lambda>e'. \<not> serverSelects rt w p e') before"
      then obtain before after where h: "a # m = before @ e # after" "serverSelects rt w p e"
        "list_all (\<lambda>e'. \<not> serverSelects rt w p e') before" by blast
      from h False obtain b where b: "before = a # b" by (cases before) auto
      with h have "m = b @ e # after" "list_all (\<lambda>e'. \<not> serverSelects rt w p e') b" by auto
      with h(2) show "\<exists>before after. m = before @ e # after \<and> serverSelects rt w p e
        \<and> list_all (\<lambda>e'. \<not> serverSelects rt w p e') before" by blast
    next
      assume "\<exists>before after. m = before @ e # after \<and> serverSelects rt w p e
        \<and> list_all (\<lambda>e'. \<not> serverSelects rt w p e') before"
      then obtain before after where h: "m = before @ e # after" "serverSelects rt w p e"
        "list_all (\<lambda>e'. \<not> serverSelects rt w p e') before" by blast
      with False have "a # m = (a # before) @ e # after"
        "list_all (\<lambda>e'. \<not> serverSelects rt w p e') (a # before)" by auto
      with h(2) show "\<exists>before after. a # m = before @ e # after \<and> serverSelects rt w p e
        \<and> list_all (\<lambda>e'. \<not> serverSelects rt w p e') before" by blast
    qed
    ultimately show ?thesis using Cons.IH by simp
  qed
qed

lemma findServerRoot_None_iff:
  "findServerRoot rt w p m = None \<longleftrightarrow> list_all (\<lambda>e'. \<not> serverSelects rt w p e') m"
  by (induction m) (auto simp: serverSelects_def indexOf_dotdot split: if_splits)

lemma findLocalRoot_Some_iff:
  "findLocalRoot rt p m = Some e \<longleftrightarrow>
     (\<exists>before after. m = before @ e # after \<and> localSelects rt p e
        \<and> list_all (\<lambda>e'. \<not> localSelects rt p e') before)"
proof (induction m)
  case Nil
  show ?case by simp
next
  case (Cons a m)
  obtain k v where a: "a = (k, v)" by (cases a)
  show ?case
  proof (cases "localSelects rt p a")
    case True
    then have "findLocalRoot rt p (a # m) = Some a"
      by (simp add: a localSelects_def indexOf_dotdot)
    moreover have "(\<exists>before after. a # m = before @ e # after \<and> localSelects rt p e
        \<and> list_all (\<lambda>e'. \<not> localSelects rt p e') before) \<longleftrightarrow> e = a"
      using True by (auto simp: Cons_eq_append_conv)
    ultimately show ?thesis by auto
  next
    case False
    then have "findLocalRoot rt p (a # m) = findLocalRoot rt p m"
      by (simp add: a localSelects_def indexOf_dotdot)
    moreover have "(\<exists>before after. a # m = before @ e # after \<and> localSelects rt p e
        \<and> list_all (\<lambda>e'. \<not> localSelects rt p e') before) \<longleftrightarrow>
       (\<exists>before after. m = before @ e # after \<and> localSelects rt p e
        \<and> list_all (\<lambda>e'. \<not> localSelects rt p e') before)"
    proof
      assume "\<exists>before after. a # m = before @ e # after \<and> localSelects rt p e
        \<and> list_all (\<lambda>e'. \<not> localSelects rt p e') before"
      then obtain before after where h: "a # m = before @ e # after" "localSelects rt p e"
        "list_all (\<lambda>e'. \<not> localSelects rt p e') before" by blast
      from h False obtain b where b: "before = a # b" by (cases before) auto
      with h have "m = b @ e # after" "list_all (\<lambda>e'. \<not> localSelects rt p e') b" by auto
      with h(2) show "\<exists>before after. m = before @ e # after \<and> localSelects rt p e
        \<and> list_all (\<lambda>e'. \<not> localSelects rt p e') before" by blast
    next
      assume "\<exists>before after. m = before @ e # after \<and> localSelects rt p e
        \<and> list_all (\<lambda>e'. \<not> localSelects rt p e') before"
      then obtain before after where h: "m = before @ e # after" "localSelects rt p e"
        "list_all (\<lambda>e'. \<not> localSelects rt p e') before" by blast
      with False have "a # m = (a # before) @ e # after"
        "list_all (\<lambda>e'. \<not> localSelects rt p e') (a # before)" by auto
      with h(2) show "\<exists>before after. a # m = before @ e # after \<and> localSelects rt p e
        \<and> list_all (\<lambda>e'. \<not> localSelects rt p e') before" by blast
    qed
    ultimately show ?thesis using Cons.IH by simp
  qed
qed

lemma findLocalRoot_None_iff:
  "findLocalRoot rt p m = None \<longleftrightarrow> list_all (\<lambda>e'. \<not> localSelects rt p e') m"
  by (induction m) (auto simp: localSelects_def indexOf_dotdot split: if_splits)

section \<open>Server to client through a mapped root\<close>

text \<open>
  Claim C1. For the mapping \<^verbatim>\<open>{"/var/www": "/home/user/project"}\<close>,
  \<open>convertDebuggerPathToClient\<close> applied to the URI \<^verbatim>\<open>file:///var/www/src/a.php\<close> returns the
  client path \<^verbatim>\<open>/home/user/project/src/a.php\<close>, in the separator form of the host: on
  every POSIX host, whatever its working directory, the result is exactly that string.
\<close>

theorem serverToClient_mapped_root:
  assumes "\<not> isWindows rt"
  shows "convertDebuggerPathToClient rt (UriString ''file:///var/www/src/a.php'')
           (Some [(''/var/www'', ''/home/user/project'')]) = Inr ''/home/user/project/src/a.php''"
proof -
  have p: "urlParse rt ''file:///var/www/src/a.php'' False =
      Inr (emptyUrl\<lparr>protocol := Some ''file:'', slashes := True, host := Some [],
        hostname := Some [], pathname := Some ''/var/www/src/a.php''\<rparr>)"
    by code_simp
  have d: "decode (Some ''/var/www/src/a.php'') = Inr ''/var/www/src/a.php''"
    by code_simp
  have w: "\<not> serverIsWindowsTest ''/var/www/src/a.php''"
    by code_simp
  have r: "posixRelative rt ''/var/www'' ''/var/www/src/a.php'' = ''src/a.php''"
    by code_simp
  have i: "indexOf ''src/a.php'' ''..'' \<noteq> 0"
    by code_simp
  have v: "posixResolve rt [''/home/user/project'', ''src/a.php''] = ''/home/user/project/src/a.php''"
    by code_simp
  show ?thesis
    unfolding convertDebuggerPathToClient_def
    using assms
    by (simp add: p d w r i v emptyUrl_def serverRelative_def pathResolve_def objectEntries_single)
qed

theorem serverToClient_mapped_root_witness:
  "convertDebuggerPathToClient posixHost (UriString ''file:///var/www/src/a.php'')
     (Some [(''/var/www'', ''/home/user/project'')]) = Inr ''/home/user/project/src/a.php''"
  using serverToClient_mapped_root [of posixHost] by (simp add: posixHost_def)

text \<open>
  On the Windows host the same call returns the path with backslashes, on the drive of the
  working directory.
\<close>

lemma serverToClient_mapped_root_windows_host:
  "convertDebuggerPathToClient windowsHost (UriString ''file:///var/www/src/a.php'')
     (Some [(''/var/www'', ''/home/user/project'')]) = Inr (WIN ''C:/home/user/project/src/a.php'')"
  by code_simp

section \<open>Client to server through a mapped root\<close>

text \<open>
  Claim C2. For the mapping \<^verbatim>\<open>{"/var/www": "/home/user/project"}\<close>,
  \<open>convertClientPathToDebugger\<close> applied to the local path
  \<^verbatim>\<open>/home/user/project/src/a.php\<close> returns exactly the server URI
  \<^verbatim>\<open>file:///var/www/src/a.php\<close> (on every POSIX host).
\<close>

theorem clientToServer_mapped_root:
  assumes "\<not> isWindows rt"
  shows "convertClientPathToDebugger rt ''/home/user/project/src/a.php''
           (Some [(''/var/www'', ''/home/user/project'')]) = Inr ''file:///var/www/src/a.php''"
proof -
  have f: "fileUrl (lowerDriveLetter ''/home/user/project/src/a.php'') = ''file:///home/user/project/src/a.php''"
    by code_simp
  have r: "posixRelative rt ''/home/user/project'' ''/home/user/project/src/a.php'' = ''src/a.php''"
    by code_simp
  have i: "indexOf ''src/a.php'' ''..'' \<noteq> 0"
    by code_simp
  have l: "withTrailingSlash (fileUrl (lowerDriveLetter ''/home/user/project'')) = ''file:///home/user/project/''"
    by code_simp
  have s: "withTrailingSlash (fileUrl (lowerDriveLetter ''/var/www'')) = ''file:///var/www/''"
    by code_simp
  have n: "lowerDriveLetter ''/home/user/project'' \<noteq> []" "lowerDriveLetter ''/var/www'' \<noteq> []"
    by code_simp+
  have u: "relativeUrl rt ''file:///home/user/project/'' ''file:///home/user/project/src/a.php'' = Inr ''src/a.php''"
    by code_simp
  have v: "urlResolve rt ''file:///var/www/'' ''src/a.php'' = Inr ''file:///var/www/src/a.php''"
    by code_simp
  show ?thesis
    unfolding convertClientPathToDebugger_def
    using assms n by (simp add: f r i l s u v pathRelative_def objectEntries_single)
qed

theorem clientToServer_mapped_root_witness:
  "convertClientPathToDebugger posixHost ''/home/user/project/src/a.php''
     (Some [(''/var/www'', ''/home/user/project'')]) = Inr ''file:///var/www/src/a.php''"
  using clientToServer_mapped_root [of posixHost] by (simp add: posixHost_def)

lemma clientToServer_mapped_root_windows_host:
  "convertClientPathToDebugger windowsHost ''/home/user/project/src/a.php''
     (Some [(''/var/www'', ''/home/user/project'')]) = Inr ''file:///var/www/src/a.php''"
  by code_simp

section \<open>First match wins\<close>

lemma findServerRoot_first:
  assumes "list_all (\<lambda>e'. \<not> serverSelects rt w p e') before" and "serverSelects rt w p e"
  shows "findServerRoot rt w p (before @ e # after) = Some e"
  using assms findServerRoot_Some_iff [of rt w p "before @ e # after" e] by blast

lemma findLocalRoot_first:
  assumes "list_all (\<lambda>e'. \<not> localSelects rt p e') before" and "localSelects rt p e"
  shows "findLocalRoot rt p (before @ e # after) = Some e"
  using assms findLocalRoot_Some_iff [of rt p "before @ e # after" e] by blast

lemma convertDebuggerPathToClient_root:
  assumes "serverPathOf rt fileUri = Inr (w, p)"
  shows "convertDebuggerPathToClient rt fileUri (Some m) =
     Inr (case findServerRoot rt w p (objectEntries m) of
            Some (serverSourceRoot, localSourceRoot) \<Rightarrow>
              (if serverSourceRoot \<noteq> [] \<and> localSourceRoot \<noteq> []
               then pathResolve rt [localSourceRoot, serverRelative rt w serverSourceRoot p]
               else pathNormalize rt p)
          | None \<Rightarrow> pathNormalize rt p)"
    and "convertDebuggerPathToClient rt fileUri None = Inr (pathNormalize rt p)"
  using assms
  by (auto simp: convertDebuggerPathToClient_def serverPathOf_def Let_def
      split: sum.splits fileUriArg.splits option.splits)

text \<open>
  Claim C4, as stated: both conversion functions go through the keys of the mapping in
  the order in which they were given. Not when a key is an array index: with the mapping
  \<^verbatim>\<open>{"/home/me": "/x", "1": "/y"}\<close> the key \<^verbatim>\<open>1\<close> is tried first, although it was given
  second and the first key given passes the test; on a host whose working directory is
  \<^verbatim>\<open>/home/me\<close> the path \<^verbatim>\<open>/home/me/1/a.php\<close> is mapped through \<^verbatim>\<open>1\<close>. The same holds from
  client to server.
\<close>

theorem object_keys_order_counterexample:
  "serverSelects posixHost False ''/home/me/1/a.php'' (''/home/me'', ''/x'')
   \<and> convertDebuggerPathToClient posixHost (UriString ''file:///home/me/1/a.php'')
        (Some [(''/home/me'', ''/x'')]) = Inr ''/x/1/a.php''
   \<and> convertDebuggerPathToClient posixHost (UriString ''file:///home/me/1/a.php'')
        (Some [(''/home/me'', ''/x''), (''1'', ''/y'')]) = Inr ''/y/a.php''
   \<and> localSelects posixHost ''/x/1/a.php'' (''/home/me'', ''/x'')
   \<and> convertClientPathToDebugger posixHost ''/x/1/a.php''
        (Some [(''/home/me'', ''/x'')]) = Inr ''file:///home/me/1/a.php''
   \<and> convertClientPathToDebugger posixHost ''/x/1/a.php''
        (Some [(''/home/me'', ''/x''), (''1'', ''/x/1'')]) = Inr ''file:///1/a.php''"
  by code_simp

text \<open>
  Claim C4, amended. Both conversion functions go through the entries of the mapping in
  the order of \<^verbatim>\<open>Object.keys\<close> (array indices first, in ascending order, then the other keys
  in the order given; the order given when no key is an array index) and use the first
  entry whose relative path does not start with \<^verbatim>\<open>..\<close>, whatever entries follow it: from
  server to client the result is the path resolved from that entry's local root, from
  client to server it is the result for the mapping that holds that entry alone. When no
  entry passes the test, the result is that of the call without a mapping. With the keys
  \<^verbatim>\<open>/var/www/sub\<close>, \<^verbatim>\<open>/var/www\<close> in that order, the server path \<^verbatim>\<open>/var/www/sub/x.php\<close> is
  mapped through the first entry; in the other order it is mapped through \<^verbatim>\<open>/var/www\<close>;
  a key that does not pass the test is passed over.
\<close>

theorem first_match_wins:
  "(serverPathOf rt fileUri = Inr (w, p) \<and> objectEntries m = before @ e # after
      \<and> list_all (\<lambda>e'. \<not> serverSelects rt w p e') before \<and> serverSelects rt w p e
     \<longrightarrow> convertDebuggerPathToClient rt fileUri (Some m) =
           Inr (if fst e \<noteq> [] \<and> snd e \<noteq> []
                then pathResolve rt [snd e, serverRelative rt w (fst e) p]
                else pathNormalize rt p))
   \<and> (serverPathOf rt fileUri = Inr (w, p)
      \<and> list_all (\<lambda>e'. \<not> serverSelects rt w p e') (objectEntries m)
     \<longrightarrow> convertDebuggerPathToClient rt fileUri (Some m) = convertDebuggerPathToClient rt fileUri None)
   \<and> (objectEntries m = before @ e # after
      \<and> list_all (\<lambda>e'. \<not> localSelects rt localPath e') before \<and> localSelects rt localPath e
     \<longrightarrow> convertClientPathToDebugger rt localPath (Some m) = convertClientPathToDebugger rt localPath (Some [e]))
   \<and> (list_all (\<lambda>e'. \<not> localSelects rt localPath e') (objectEntries m)
     \<longrightarrow> convertClientPathToDebugger rt localPath (Some m) = convertClientPathToDebugger rt localPath None)
   \<and> (list_all (\<lambda>e'. \<not> isArrayIndex (fst e')) m \<longrightarrow> objectEntries m = m)
   \<and> convertDebuggerPathToClient posixHost (UriString ''file:///var/www/sub/x.php'')
        (Some [(''/var/www/sub'', ''/home/u/sub''), (''/var/www'', ''/home/u/www'')])
      = Inr ''/home/u/sub/x.php''
   \<and> convertDebuggerPathToClient posixHost (UriString ''file:///var/www/sub/x.php'')
        (Some [(''/var/www'', ''/home/u/www''), (''/var/www/sub'', ''/home/u/sub'')])
      = Inr ''/home/u/www/sub/x.php''
   \<and> convertDebuggerPathToClient posixHost (UriString ''file:///var/www/sub/x.php'')
        (Some [(''/srv/other'', ''/home/u/other''), (''/var/www'', ''/home/u/www'')])
      = Inr ''/home/u/www/sub/x.php''
   \<and> convertClientPathToDebugger posixHost ''/home/u/www/sub/x.php''
        (Some [(''/srv/a'', ''/home/u/www/sub''), (''/srv/b'', ''/home/u/www'')])
      = Inr ''file:///srv/a/x.php''
   \<and> convertClientPathToDebugger posixHost ''/home/u/www/sub/x.php''
        (Some [(''/srv/b'', ''/home/u/www''), (''/srv/a'', ''/home/u/www/sub'')])
      = Inr ''file:///srv/b/sub/x.php''
   \<and> convertClientPathToDebugger posixHost ''/home/u/www/sub/x.php''
        (Some [(''/srv/c'', ''/opt/other''), (''/srv/b'', ''/home/u/www'')])
      = Inr ''file:///srv/b/sub/x.php''"
proof (intro conjI impI)
  assume a: "serverPathOf rt fileUri = Inr (w, p) \<and> objectEntries m = before @ e # after
      \<and> list_all (\<lambda>e'. \<not> serverSelects rt w p e') before \<and> serverSelects rt w p e"
  then have "findServerRoot rt w p (objectEntries m) = Some e"
    by (simp add: findServerRoot_first)
  with a show "convertDebuggerPathToClient rt fileUri (Some m) =
           Inr (if fst e \<noteq> [] \<and> snd e \<noteq> []
                then pathResolve rt [snd e, serverRelative rt w (fst e) p]
                else pathNormalize rt p)"
    by (cases e) (simp add: convertDebuggerPathToClient_root)
next
  assume a: "serverPathOf rt fileUri = Inr (w, p)
      \<and> list_all (\<lambda>e'. \<not> serverSelects rt w p e') (objectEntries m)"
  then have "findServerRoot rt w p (objectEntries m) = None"
    by (simp add: findServerRoot_None_iff)
  with a show "convertDebuggerPathToClient rt fileUri (Some m) = convertDebuggerPathToClient rt fileUri None"
    by (simp add: convertDebuggerPathToClient_root)
next
  assume a: "objectEntries m = before @ e # after
      \<and> list_all (\<lambda>e'. \<not> localSelects rt localPath e') before \<and> localSelects rt localPath e"
  then have "findLocalRoot rt localPath (objectEntries m) = Some e"
    by (simp add: findLocalRoot_first)
  moreover from a have "findLocalRoot rt localPath [e] = Some e"
    using findLocalRoot_first [of rt localPath "[]" e "[]"] by simp
  ultimately show "convertClientPathToDebugger rt localPath (Some m) = convertClientPathToDebugger rt localPath (Some [e])"
    by (simp add: convertClientPathToDebugger_def objectEntries_single)
next
  assume "list_all (\<lambda>e'. \<not> localSelects rt localPath e') (objectEntries m)"
  then have "findLocalRoot rt localPath (objectEntries m) = None"
    by (simp add: findLocalRoot_None_iff)
  then show "convertClientPathToDebugger rt localPath (Some m) = convertClientPathToDebugger rt localPath None"
    by (simp add: convertClientPathToDebugger_def)
next
  assume "list_all (\<lambda>e'. \<not> isArrayIndex (fst e')) m"
  then show "objectEntries m = m" by (rule objectEntries_no_index)
qed code_simp+

theorem first_match_wins_witness:
  "convertDebuggerPathToClient posixHost (UriString ''file:///var/www/sub/x.php'')
      (Some [(''/srv/other'', ''/opt/other''), (''/var/www'', ''/home/u/www''), (''/var'', ''/home/u'')])
     = Inr ''/home/u/www/sub/x.php''
   \<and> convertClientPathToDebugger posixHost ''/home/u/www/sub/x.php''
      (Some [(''/srv/other'', ''/opt/other''), (''/var/www'', ''/home/u/www''), (''/var'', ''/home/u'')])
     = convertClientPathToDebugger posixHost ''/home/u/www/sub/x.php'' (Some [(''/var/www'', ''/home/u/www'')])
   \<and> convertDebuggerPathToClient posixHost (UriString ''file:///var/www/sub/x.php'')
      (Some [(''/srv/other'', ''/opt/other'')])
     = convertDebuggerPathToClient posixHost (UriString ''file:///var/www/sub/x.php'') None
   \<and> convertClientPathToDebugger posixHost ''/home/u/www/sub/x.php'' (Some [(''/srv/other'', ''/opt/other'')])
     = convertClientPathToDebugger posixHost ''/home/u/www/sub/x.php'' None
   \<and> objectEntries [(''/srv/other'', ''/opt/other''), (''/var/www'', ''/home/u/www''), (''/var'', ''/home/u'')]
     = [(''/srv/other'', ''/opt/other''), (''/var/www'', ''/home/u/www''), (''/var'', ''/home/u'')]"
proof -
  have sp: "serverPathOf posixHost (UriString ''file:///var/www/sub/x.php'') = Inr (False, ''/var/www/sub/x.php'')"
    by code_simp
  have oe: "objectEntries [(''/srv/other'', ''/opt/other''), (''/var/www'', ''/home/u/www''), (''/var'', ''/home/u'')]
      = [(''/srv/other'', ''/opt/other'')] @ (''/var/www'', ''/home/u/www'') # [(''/var'', ''/home/u'')]"
    by code_simp
  have oe0: "objectEntries [(''/srv/other'', ''/opt/other'')] = [(''/srv/other'', ''/opt/other'')]"
    by (rule objectEntries_single)
  have s1: "list_all (\<lambda>e'. \<not> serverSelects posixHost False ''/var/www/sub/x.php'' e') [(''/srv/other'', ''/opt/other'')]"
    by code_simp
  have s2: "serverSelects posixHost False ''/var/www/sub/x.php'' (''/var/www'', ''/home/u/www'')"
    by code_simp
  have l1: "list_all (\<lambda>e'. \<not> localSelects posixHost ''/home/u/www/sub/x.php'' e') [(''/srv/other'', ''/opt/other'')]"
    by code_simp
  have l2: "localSelects posixHost ''/home/u/www/sub/x.php'' (''/var/www'', ''/home/u/www'')"
    by code_simp
  have na: "list_all (\<lambda>e'. \<not> isArrayIndex (fst e'))
      [(''/srv/other'', ''/opt/other''), (''/var/www'', ''/home/u/www''), (''/var'', ''/home/u'')]"
    by code_simp
  have v: "(if fst (''/var/www'', ''/home/u/www'') \<noteq> [] \<and> snd (''/var/www'', ''/home/u/www'') \<noteq> []
            then pathResolve posixHost [snd (''/var/www'', ''/home/u/www''),
                   serverRelative posixHost False (fst (''/var/www'', ''/home/u/www'')) ''/var/www/sub/x.php'']
            else pathNormalize posixHost ''/var/www/sub/x.php'') = ''/home/u/www/sub/x.php''"
    by code_simp
  note a = first_match_wins [where rt = posixHost and fileUri = "UriString ''file:///var/www/sub/x.php''"
      and w = False and p = "''/var/www/sub/x.php''" and localPath = "''/home/u/www/sub/x.php''"
      and m = "[(''/srv/other'', ''/opt/other''), (''/var/www'', ''/home/u/www''), (''/var'', ''/home/u'')]"
      and before = "[(''/srv/other'', ''/opt/other'')]" and e = "(''/var/www'', ''/home/u/www'')"
      and after = "[(''/var'', ''/home/u'')]"]
  note b = first_match_wins [where rt = posixHost and fileUri = "UriString ''file:///var/www/sub/x.php''"
      and w = False and p = "''/var/www/sub/x.php''" and localPath = "''/home/u/www/sub/x.php''"
      and m = "[(''/srv/other'', ''/opt/other'')]"]
  from a sp oe s1 s2 have c1: "convertDebuggerPathToClient posixHost (UriString ''file:///var/www/sub/x.php'')
      (Some [(''/srv/other'', ''/opt/other''), (''/var/www'', ''/home/u/www''), (''/var'', ''/home/u'')])
     = Inr (if fst (''/var/www'', ''/home/u/www'') \<noteq> [] \<and> snd (''/var/www'', ''/home/u/www'') \<noteq> []
            then pathResolve posixHost [snd (''/var/www'', ''/home/u/www''),
                   serverRelative posixHost False (fst (''/var/www'', ''/home/u/www'')) ''/var/www/sub/x.php'']
            else pathNormalize posixHost ''/var/www/sub/x.php'')"
    by blast
  from a oe l1 l2 have c2: "convertClientPathToDebugger posixHost ''/home/u/www/sub/x.php''
      (Some [(''/srv/other'', ''/opt/other''), (''/var/www'', ''/home/u/www''), (''/var'', ''/home/u'')])
     = convertClientPathToDebugger posixHost ''/home/u/www/sub/x.php'' (Some [(''/var/www'', ''/home/u/www'')])"
    by blast
  from a na have c5: "objectEntries [(''/srv/other'', ''/opt/other''), (''/var/www'', ''/home/u/www''), (''/var'', ''/home/u'')]
     = [(''/srv/other'', ''/opt/other''), (''/var/www'', ''/home/u/www''), (''/var'', ''/home/u'')]"
    by blast
  from b sp s1 have c3: "convertDebuggerPathToClient posixHost (UriString ''file:///var/www/sub/x.php'')
      (Some [(''/srv/other'', ''/opt/other'')])
     = convertDebuggerPathToClient posixHost (UriString ''file:///var/www/sub/x.php'') None"
    unfolding oe0 by blast
  from b l1 have c4: "convertClientPathToDebugger posixHost ''/home/u/www/sub/x.php'' (Some [(''/srv/other'', ''/opt/other'')])
     = convertClientPathToDebugger posixHost ''/home/u/www/sub/x.php'' None"
    unfolding oe0 by blast
  from c1 c2 c3 c4 c5 show ?thesis by (simp only: v simp_thms)
qed

section \<open>A path that equals a mapped root\<close>

text \<open>
  Server to client: when the decoded server path is the first key of the mapping, the
  relative path is empty and the result is the local root resolved on its own.
\<close>

lemma serverRelative_same: "serverRelative rt w root root = []"
  by (simp add: serverRelative_def win32Relative_def posixRelative_def)

lemma exact_root_serverToClient:
  assumes "decode (pathname u) = Inr serverPath0"
    and "serverPath = (if serverIsWindowsTest serverPath0 then jsSliceFrom serverPath0 1 else serverPath0)"
    and "serverPath \<noteq> []" and "localRoot \<noteq> []"
    and "objectEntries m = (serverPath, localRoot) # entries"
  shows "convertDebuggerPathToClient rt (UriObject u) (Some m) = Inr (pathResolve rt [localRoot, []])"
proof -
  have "indexOf (serverRelative rt w serverPath serverPath) ''..'' \<noteq> 0" for w
    by (simp add: serverRelative_same indexOf_def)
  then show ?thesis
    using assms by (simp add: convertDebuggerPathToClient_def serverRelative_same Let_def)
qed

text \<open>
  Claim C5. When the input path equals a mapped root, the output is the root of the other
  side: server to client, the mapped client root; client to server, the server root URI
  with its trailing slash. The first half holds. The second does not: the URI of the local
  path has no trailing slash while the URI of the local root is given one, so the
  relative reference is \<^verbatim>\<open>../project\<close> and the result is \<^verbatim>\<open>file:///var/project\<close>, a sibling
  of the server root \<^verbatim>\<open>file:///var/www/\<close>.
\<close>

theorem exact_root_clientToServer:
  "convertClientPathToDebugger posixHost ''/home/user/project''
     (Some [(''/var/www'', ''/home/user/project'')]) = Inr ''file:///var/project''
   \<and> convertDebuggerPathToClient posixHost (UriString ''file:///var/www'')
     (Some [(''/var/www'', ''/home/user/project'')]) = Inr ''/home/user/project''"
  by code_simp

section \<open>The selection test and the directory tree\<close>

text \<open>
  Claim C6. The test of the server loop (the relative path from the mapped root to the
  server path does not start with \<^verbatim>\<open>..\<close>) holds if and only if the server path is at or
  below the mapped root. It does not: \<^verbatim>\<open>/var/www/..cache/a.php\<close> is below \<^verbatim>\<open>/var/www\<close>, its
  relative path \<^verbatim>\<open>..cache/a.php\<close> starts with two dots, the entry is not selected, and the
  path is returned unmapped.
\<close>

theorem dotdot_name_not_selected:
  "atOrBelow ''/var/www'' ''/var/www/..cache/a.php''
   \<and> \<not> serverSelects posixHost False ''/var/www/..cache/a.php'' (''/var/www'', ''/home/user/project'')
   \<and> findServerRoot posixHost False ''/var/www/..cache/a.php'' [(''/var/www'', ''/home/user/project'')] = None
   \<and> convertDebuggerPathToClient posixHost (UriString ''file:///var/www/..cache/a.php'')
        (Some [(''/var/www'', ''/home/user/project'')]) = Inr ''/var/www/..cache/a.php''"
  by code_simp

section \<open>Windows server paths\<close>





section \<open>Drive letters in lower case\<close>

lemma toLowerChar_upper:
  assumes "isUpperAZ c"
  shows "isLowerAZ (toLowerChar c) \<and> charCode (toLowerChar c) = charCode c + 32"
proof (cases c)
  case (Char b0 b1 b2 b3 b4 b5 b6 b7)
  with assms show ?thesis
    by (cases b0; cases b1; cases b2; cases b3; cases b4; cases b5; cases b6; cases b7;
        simp add: isUpperAZ_def isLowerAZ_def charCode_def)
qed

lemma length_lowerDriveLetter: "length (lowerDriveLetter s) = length s"
  by (simp add: lowerDriveLetter_def toLowerCase_def min_def)

lemma lowerDriveLetter_drive:
  assumes "isUpperAZ c"
  shows "lowerDriveLetter (c # CHR '':'' # bslash # rest) = toLowerChar c # CHR '':'' # bslash # rest"
proof -
  have "toLowerChar (CHR '':'') = CHR '':''" "toLowerChar bslash = bslash"
    by (simp_all add: isUpperAZ_def charCode_def)
  with assms show ?thesis
    by (simp add: lowerDriveLetter_def toLowerCase_def)
qed

lemma lowerDriveLetter_other:
  "\<not> (\<exists>c rest. isUpperAZ c \<and> s = c # CHR '':'' # bslash # rest) \<Longrightarrow> lowerDriveLetter s = s"
  unfolding lowerDriveLetter_def reTest_class_colon_slash by auto

lemma fileUrl_drive:
  assumes "isLowerAZ c"
  shows "\<exists>tail. fileUrl (c # CHR '':'' # bslash # rest) = ''file:///'' @ c # '':/'' @ tail"
proof -
  from assms have k: "uriKept c" "c \<noteq> CHR ''/''" "c \<noteq> bslash" "c \<noteq> CHR ''#''" "c \<noteq> CHR ''?''"
    by (auto simp: uriKept_def isLetter_def isLowerAZ_def charCode_def)
  have e: "encodeURI (''file:///'' @ c # '':/'' @ r) = ''file:///'' @ c # '':/'' @ encodeURI r" for r
    using k by (simp add: encodeURI_def uriKept_def isLetter_def isLowerAZ_def isUpperAZ_def
        isDigit_def charCode_def)
  have h: "escapeHashAndQuestion (''file:///'' @ c # '':/'' @ r) = ''file:///'' @ c # '':/'' @ escapeHashAndQuestion r" for r
    using k by (simp add: escapeHashAndQuestion_def)
  have "fileUrl (c # CHR '':'' # bslash # rest)
          = escapeHashAndQuestion (encodeURI (''file:///'' @ c # '':/'' @ replaceChar bslash (CHR ''/'') rest))"
    using k by (simp add: fileUrl_def replaceChar_def codeAt_def)
  then show ?thesis
    by (simp only: e h) blast
qed

text \<open>
  Claim C8. \<open>convertClientPathToDebugger\<close> puts a drive-letter prefix (an upper-case letter,
  a colon, a backslash) in lower case before it builds a URI, wherever there is one:
  \<^verbatim>\<open>C:\Users\me\index.php\<close> without a mapping gives \<^verbatim>\<open>file:///c:/Users/me/index.php\<close>, every
  local path with such a prefix gives a URI that starts with the lower-case drive, and
  when an entry of the mapping matches, the URIs of both its roots are built from the
  roots with the prefix in lower case.
\<close>

theorem drive_letters_lowercased:
  "convertClientPathToDebugger rt (WIN ''C:/Users/me/index.php'') None = Inr ''file:///c:/Users/me/index.php''
   \<and> convertClientPathToDebugger rt localPath None = Inr (fileUrl (lowerDriveLetter localPath))
   \<and> (isUpperAZ c \<longrightarrow>
        lowerDriveLetter (c # CHR '':'' # bslash # rest) = toLowerChar c # CHR '':'' # bslash # rest
        \<and> isLowerAZ (toLowerChar c)
        \<and> (\<exists>tail. convertClientPathToDebugger rt (c # CHR '':'' # bslash # rest) None
                     = Inr (''file:///'' @ toLowerChar c # '':/'' @ tail)))
   \<and> (findLocalRoot rt localPath (objectEntries m) = Some (mappedServerPath, mappedLocalSource)
        \<and> mappedServerPath \<noteq> [] \<and> mappedLocalSource \<noteq> [] \<longrightarrow>
        convertClientPathToDebugger rt localPath (Some m) =
          (case relativeUrl rt (withTrailingSlash (fileUrl (lowerDriveLetter mappedLocalSource)))
                  (fileUrl (lowerDriveLetter localPath)) of
             Inl err \<Rightarrow> Inl err
           | Inr r \<Rightarrow> urlResolve rt (withTrailingSlash (fileUrl (lowerDriveLetter mappedServerPath))) r))
   \<and> convertClientPathToDebugger windowsHost (WIN ''C:/Users/me/site/index.php'')
        (Some [(WIN ''C:/inetpub'', WIN ''C:/Users/me'')]) = Inr ''file:///c:/inetpub/site/index.php''"
proof (intro conjI impI)
  show "convertClientPathToDebugger rt (WIN ''C:/Users/me/index.php'') None = Inr ''file:///c:/Users/me/index.php''"
    by code_simp
  show "convertClientPathToDebugger rt localPath None = Inr (fileUrl (lowerDriveLetter localPath))"
    by (simp add: convertClientPathToDebugger_def)
  show "convertClientPathToDebugger windowsHost (WIN ''C:/Users/me/site/index.php'')
        (Some [(WIN ''C:/inetpub'', WIN ''C:/Users/me'')]) = Inr ''file:///c:/inetpub/site/index.php''"
    by code_simp
next
  assume u: "isUpperAZ c"
  then show "lowerDriveLetter (c # CHR '':'' # bslash # rest) = toLowerChar c # CHR '':'' # bslash # rest"
    by (rule lowerDriveLetter_drive)
  from u show l: "isLowerAZ (toLowerChar c)"
    by (simp add: toLowerChar_upper)
  from fileUrl_drive [OF l, of rest] obtain tail
    where "fileUrl (toLowerChar c # CHR '':'' # bslash # rest) = ''file:///'' @ toLowerChar c # '':/'' @ tail"
    by blast
  then show "\<exists>tail. convertClientPathToDebugger rt (c # CHR '':'' # bslash # rest) None
                     = Inr (''file:///'' @ toLowerChar c # '':/'' @ tail)"
    by (simp add: convertClientPathToDebugger_def lowerDriveLetter_drive [OF u])
next
  assume a: "findLocalRoot rt localPath (objectEntries m) = Some (mappedServerPath, mappedLocalSource)
        \<and> mappedServerPath \<noteq> [] \<and> mappedLocalSource \<noteq> []"
  then have "lowerDriveLetter mappedServerPath \<noteq> []" "lowerDriveLetter mappedLocalSource \<noteq> []"
    using length_lowerDriveLetter [of mappedServerPath] length_lowerDriveLetter [of mappedLocalSource]
    by auto
  with a show "convertClientPathToDebugger rt localPath (Some m) =
          (case relativeUrl rt (withTrailingSlash (fileUrl (lowerDriveLetter mappedLocalSource)))
                  (fileUrl (lowerDriveLetter localPath)) of
             Inl err \<Rightarrow> Inl err
           | Inr r \<Rightarrow> urlResolve rt (withTrailingSlash (fileUrl (lowerDriveLetter mappedServerPath))) r)"
    by (simp add: convertClientPathToDebugger_def Let_def)
qed

theorem drive_letters_lowercased_witness:
  "isUpperAZ (CHR ''D'')
   \<and> lowerDriveLetter (WIN ''D:/www/site'') = WIN ''d:/www/site''
   \<and> (\<exists>tail. convertClientPathToDebugger windowsHost (WIN ''D:/www/site'') None = Inr (''file:///d:/'' @ tail))
   \<and> convertClientPathToDebugger windowsHost (WIN ''D:/www/site/a.php'') (Some [(WIN ''E:/srv'', WIN ''D:/www/site'')])
       = Inr ''file:///e:/srv/a.php''"
proof -
  have u: "isUpperAZ (CHR ''D'')" by (simp add: isUpperAZ_def charCode_def)
  have l: "toLowerChar (CHR ''D'') = CHR ''d''" by (simp add: isUpperAZ_def charCode_def)
  have w: "WIN ''D:/www/site'' = CHR ''D'' # CHR '':'' # bslash # WIN ''www/site''"
    "WIN ''d:/www/site'' = CHR ''d'' # CHR '':'' # bslash # WIN ''www/site''"
    by (simp_all add: WIN_def)
  have f: "findLocalRoot windowsHost (WIN ''D:/www/site/a.php'')
          (objectEntries [(WIN ''E:/srv'', WIN ''D:/www/site'')])
        = Some (WIN ''E:/srv'', WIN ''D:/www/site'')"
    by code_simp
  have n: "WIN ''E:/srv'' \<noteq> []" "WIN ''D:/www/site'' \<noteq> []" by (simp_all add: WIN_def)
  have r: "(case relativeUrl windowsHost (withTrailingSlash (fileUrl (lowerDriveLetter (WIN ''D:/www/site''))))
                  (fileUrl (lowerDriveLetter (WIN ''D:/www/site/a.php''))) of
             Inl err \<Rightarrow> Inl err
           | Inr r \<Rightarrow> urlResolve windowsHost (withTrailingSlash (fileUrl (lowerDriveLetter (WIN ''E:/srv'')))) r)
         = Inr ''file:///e:/srv/a.php''"
    by code_simp
  note t = drive_letters_lowercased [of windowsHost "WIN ''D:/www/site/a.php''" "CHR ''D''" "WIN ''www/site''"
      "[(WIN ''E:/srv'', WIN ''D:/www/site'')]" "WIN ''E:/srv''" "WIN ''D:/www/site''"]
  from t u have "lowerDriveLetter (WIN ''D:/www/site'') = WIN ''d:/www/site''"
    by (simp add: w l)
  moreover from t u have "\<exists>tail. convertClientPathToDebugger windowsHost (WIN ''D:/www/site'') None = Inr (''file:///d:/'' @ tail)"
    by (simp add: w l)
  moreover have "convertClientPathToDebugger windowsHost (WIN ''D:/www/site/a.php'') (Some [(WIN ''E:/srv'', WIN ''D:/www/site'')])
       = Inr ''file:///e:/srv/a.php''"
  proof -
    from t f n have "convertClientPathToDebugger windowsHost (WIN ''D:/www/site/a.php'')
        (Some [(WIN ''E:/srv'', WIN ''D:/www/site'')]) =
          (case relativeUrl windowsHost (withTrailingSlash (fileUrl (lowerDriveLetter (WIN ''D:/www/site''))))
                  (fileUrl (lowerDriveLetter (WIN ''D:/www/site/a.php''))) of
             Inl err \<Rightarrow> Inl err
           | Inr r \<Rightarrow> urlResolve windowsHost (withTrailingSlash (fileUrl (lowerDriveLetter (WIN ''E:/srv'')))) r)"
      by blast
    then show ?thesis by (simp only: r)
  qed
  ultimately show ?thesis using u by blast
qed

section \<open>Only the path of the URI counts\<close>

text \<open>
  Claim C10. The result of \<open>convertDebuggerPathToClient\<close> depends on the path component of
  the URI only: two parsed URIs with the same \<^verbatim>\<open>pathname\<close>, and two URI strings that parse
  to the same \<^verbatim>\<open>pathname\<close>, give the same result for every mapping, whatever their host,
  query and fragment.
\<close>

theorem serverToClient_pathname_only:
  "(pathname u1 = pathname u2 \<longrightarrow>
      convertDebuggerPathToClient rt (UriObject u1) m = convertDebuggerPathToClient rt (UriObject u2) m)
   \<and> (urlParse rt s1 False = Inr u1 \<and> urlParse rt s2 False = Inr u2 \<and> pathname u1 = pathname u2 \<longrightarrow>
      convertDebuggerPathToClient rt (UriString s1) m = convertDebuggerPathToClient rt (UriString s2) m)"
  by (simp add: convertDebuggerPathToClient_def)

theorem serverToClient_pathname_only_witness:
  "convertDebuggerPathToClient posixHost (UriString ''file://build.example/var/www/a.php?rev=1#L10'')
      (Some [(''/var/www'', ''/home/user/project'')])
   = convertDebuggerPathToClient posixHost (UriString ''file:///var/www/a.php'')
      (Some [(''/var/www'', ''/home/user/project'')])
   \<and> convertDebuggerPathToClient posixHost (UriString ''file:///var/www/a.php'')
      (Some [(''/var/www'', ''/home/user/project'')]) = Inr ''/home/user/project/a.php''"
proof -
  have p1: "urlParse posixHost ''file://build.example/var/www/a.php?rev=1#L10'' False =
      Inr \<lparr>protocol = Some ''file:'', slashes = True, auth = None, host = Some ''build.example'',
        port = None, hostname = Some ''build.example'', hash = Some ''#L10'', search = Some ''?rev=1'',
        pathname = Some ''/var/www/a.php''\<rparr>"
    by code_simp
  have p2: "urlParse posixHost ''file:///var/www/a.php'' False =
      Inr \<lparr>protocol = Some ''file:'', slashes = True, auth = None, host = Some [],
        port = None, hostname = Some [], hash = None, search = None,
        pathname = Some ''/var/www/a.php''\<rparr>"
    by code_simp
  have e: "convertDebuggerPathToClient posixHost (UriString ''file:///var/www/a.php'')
      (Some [(''/var/www'', ''/home/user/project'')]) = Inr ''/home/user/project/a.php''"
    by code_simp
  have q: "pathname \<lparr>protocol = Some ''file:'', slashes = True, auth = None, host = Some ''build.example'',
        port = None, hostname = Some ''build.example'', hash = Some ''#L10'', search = Some ''?rev=1'',
        pathname = Some ''/var/www/a.php''\<rparr>
      = pathname \<lparr>protocol = Some ''file:'', slashes = True, auth = None, host = Some [],
        port = None, hostname = Some [], hash = None, search = None,
        pathname = Some ''/var/www/a.php''\<rparr>"
    by simp
  from serverToClient_pathname_only [of
      "\<lparr>protocol = Some ''file:'', slashes = True, auth = None, host = Some ''build.example'',
        port = None, hostname = Some ''build.example'', hash = Some ''#L10'', search = Some ''?rev=1'',
        pathname = Some ''/var/www/a.php''\<rparr>"
      "\<lparr>protocol = Some ''file:'', slashes = True, auth = None, host = Some [],
        port = None, hostname = Some [], hash = None, search = None,
        pathname = Some ''/var/www/a.php''\<rparr>"
      posixHost "Some [(''/var/www'', ''/home/user/project'')]"
      "''file://build.example/var/www/a.php?rev=1#L10''" "''file:///var/www/a.php''"] p1 p2 q
  have "convertDebuggerPathToClient posixHost (UriString ''file://build.example/var/www/a.php?rev=1#L10'')
      (Some [(''/var/www'', ''/home/user/project'')])
   = convertDebuggerPathToClient posixHost (UriString ''file:///var/www/a.php'')
      (Some [(''/var/www'', ''/home/user/project'')])"
    by blast
  with e show ?thesis by simp
qed

section \<open>The relativization helper and \<^verbatim>\<open>url.resolve\<close>\<close>

lemma splitSlash_not_Nil: "splitSlash s \<noteq> []"
  by (induction s) (auto split: list.splits)

lemma splitSlash_no_slash: "CHR ''/'' \<notin> set a \<Longrightarrow> splitSlash a = [a]"
  by (induction a) auto

lemma splitSlash_append_slash:
  "CHR ''/'' \<notin> set a \<Longrightarrow> splitSlash (a @ CHR ''/'' # b) = a # splitSlash b"
  by (induction a) (auto split: list.splits)

lemma splitSlash_joinSlash:
  "xs \<noteq> [] \<Longrightarrow> list_all (\<lambda>x. CHR ''/'' \<notin> set x) xs \<Longrightarrow> splitSlash (joinSlash xs) = xs"
proof (induction xs rule: joinSlash.induct)
  case 1
  then show ?case by simp
next
  case (2 s)
  then show ?case by (simp add: splitSlash_no_slash)
next
  case (3 s t ss)
  then show ?case by (simp add: splitSlash_append_slash)
qed

lemma dotLoop_keep:
  "list_all (\<lambda>s. s \<noteq> ''.'' \<and> s \<noteq> ''..'') xs \<Longrightarrow>
     dotLoop (xs @ ys) 0 kept = dotLoop ys 0 (rev xs @ kept)"
  by (induction xs arbitrary: kept) auto

lemma dotLoop_ups: "dotLoop (replicate k ''..'' @ ys) up kept = dotLoop ys (up + k) kept"
  by (induction k arbitrary: up) auto

lemma dotLoop_drop:
  "list_all (\<lambda>s. s \<noteq> ''.'' \<and> s \<noteq> ''..'') xs \<Longrightarrow>
     dotLoop (xs @ ys) (length xs) kept = dotLoop ys 0 kept"
  by (induction xs) auto

lemma dotLoop_relative:
  assumes "list_all (\<lambda>s. s \<noteq> ''.'' \<and> s \<noteq> ''..'') (a @ b @ r)"
  shows "dotLoop (rev (a @ b @ replicate (length b) ''..'' @ r)) 0 [] = (a @ r, 0)"
proof -
  from assms have a: "list_all (\<lambda>s. s \<noteq> ''.'' \<and> s \<noteq> ''..'') (rev a)"
    and b: "list_all (\<lambda>s. s \<noteq> ''.'' \<and> s \<noteq> ''..'') (rev b)"
    and r: "list_all (\<lambda>s. s \<noteq> ''.'' \<and> s \<noteq> ''..'') (rev r)"
    by (simp_all add: list_all_iff)
  have "dotLoop (rev (a @ b @ replicate (length b) ''..'' @ r)) 0 []
          = dotLoop (rev r @ (replicate (length b) ''..'' @ (rev b @ rev a))) 0 []"
    by simp
  also have "\<dots> = dotLoop (replicate (length b) ''..'' @ (rev b @ rev a)) 0 r"
    using dotLoop_keep [OF r] by simp
  also have "\<dots> = dotLoop (rev b @ rev a) (length (rev b)) r"
    by (simp add: dotLoop_ups)
  also have "\<dots> = dotLoop (rev a) 0 r"
    by (rule dotLoop_drop [OF b])
  also have "\<dots> = (a @ r, 0)"
    using dotLoop_keep [OF a, of "[]" r] by simp
  finally show ?thesis .
qed

lemma commonPrefixLength_take:
  "commonPrefixLength xs ys \<le> length xs \<and> commonPrefixLength xs ys \<le> length ys
   \<and> take (commonPrefixLength xs ys) xs = take (commonPrefixLength xs ys) ys"
  by (induction xs ys rule: commonPrefixLength.induct) auto

lemma pathChar_facts:
  assumes "pathChar c"
  shows "\<not> isUrlWhitespace c" "c \<noteq> bslash" "c \<noteq> CHR ''#''" "c \<noteq> CHR ''?''" "\<not> autoEscaped c"
    "c \<noteq> CHR ''@''"
  using assms
  by (auto simp: pathChar_def plainChar_def isLetter_def isLowerAZ_def isUpperAZ_def isDigit_def
      isUrlWhitespace_def autoEscaped_def charCode_def)

lemma plainChar_facts:
  assumes "plainChar c"
  shows "pathChar c" "c \<noteq> CHR '':''" "c \<noteq> CHR ''/''"
  using assms
  by (auto simp: pathChar_def plainChar_def isLetter_def isLowerAZ_def isUpperAZ_def isDigit_def
      charCode_def)

lemma urlTrim_id: "list_all (\<lambda>c. \<not> isUrlWhitespace c) u \<Longrightarrow> urlTrim u = u"
proof -
  assume a: "list_all (\<lambda>c. \<not> isUrlWhitespace c) u"
  have d: "dropWhile isUrlWhitespace v = v" if "list_all (\<lambda>c. \<not> isUrlWhitespace c) v" for v
    using that by (cases v) auto
  from a have "list_all (\<lambda>c. \<not> isUrlWhitespace c) (rev u)"
    by (simp add: list_all_iff)
  with a show ?thesis
    by (simp add: urlTrim_def d)
qed

lemma convertBackslashes_id: "list_all (\<lambda>c. c \<noteq> bslash) u \<Longrightarrow> convertBackslashes u = u"
  by (induction u) auto

lemma autoEscapeStr_id: "list_all (\<lambda>c. \<not> autoEscaped c) u \<Longrightarrow> autoEscapeStr u = u"
  by (induction u) (auto simp: autoEscapeStr_def)

lemma escapeHashAndQuestion_id:
  "CHR ''#'' \<notin> set u \<Longrightarrow> CHR ''?'' \<notin> set u \<Longrightarrow> escapeHashAndQuestion u = u"
  by (induction u) (auto simp: escapeHashAndQuestion_def)

lemma codeAt_in_set: "codeAt s i = Some c \<Longrightarrow> c \<in> set s"
  by (auto simp: codeAt_def split: if_splits)

lemma protocolMatch_no_colon: "CHR '':'' \<notin> set r \<Longrightarrow> protocolMatch r = None"
  using codeAt_in_set [of r _ "CHR '':''"] by (auto simp: protocolMatch_def Let_def)

lemma protocolMatch_file: "protocolMatch (''file://'' @ p) = Some ''file:''"
  by (simp add: protocolMatch_def isProtocolChar_def isLetter_def isLowerAZ_def isUpperAZ_def
      isDigit_def charCode_def codeAt_def)

lemma parseHostPart_empty_host:
  "parseHostPart rt (CHR ''/'' # p) u =
     Inr (u\<lparr>auth := None, host := Some [], port := None, hostname := Some []\<rparr>, CHR ''/'' # p)"
proof -
  have h: "hostScan (CHR ''/'' # p) 0 [] (- 1) (- 1) = (CHR ''/'' # p, 0, - 1, 0)"
    by (simp add: neverInHostname_def)
  have s: "jsSlice (CHR ''/'' # p) 0 0 = []" "jsSliceFrom (CHR ''/'' # p) 0 = CHR ''/'' # p"
    by (simp_all add: jsSlice_def jsSliceFrom_def clampIndex_def)
  have g: "parseHost [] = (None, None)" "getHostname (CHR ''/'' # p) [] = ([], CHR ''/'' # p)"
    "\<not> isIpv6Hostname []" "orEmpty None = []" "toLowerCase [] = []"
    by (simp_all add: parseHost_def getHostname_def isIpv6Hostname_def orEmpty_def toLowerCase_def
        codeAt_def)
  show ?thesis
    unfolding parseHostPart_def h
    by (simp add: s g)
qed

lemma parseTail_path_only:
  assumes "CHR ''#'' \<notin> set p" "CHR ''?'' \<notin> set p" "p \<noteq> []"
  shows "parseTail lp p u = u\<lparr>hash := None, search := None, pathname := Some p\<rparr>"
proof -
  from assms have t: "takeWhile (\<lambda>c. c \<noteq> CHR ''#'') p = p" "dropWhile (\<lambda>c. c \<noteq> CHR ''#'') p = []"
    "takeWhile (\<lambda>c. c \<noteq> CHR ''?'') p = p" "dropWhile (\<lambda>c. c \<noteq> CHR ''?'') p = []"
    by (auto simp: takeWhile_eq_all_conv dropWhile_eq_Nil_conv)
  show ?thesis
    using assms by (simp add: parseTail_def Let_def t truthy_def)
qed

lemma pathChar_list_facts:
  assumes "list_all pathChar u"
  shows "list_all (\<lambda>c. \<not> isUrlWhitespace c) u" "list_all (\<lambda>c. c \<noteq> bslash) u"
    "list_all (\<lambda>c. \<not> autoEscaped c) u" "CHR ''#'' \<notin> set u" "CHR ''?'' \<notin> set u"
proof -
  from assms have a: "\<forall>c\<in>set u. pathChar c" by (simp add: list_all_iff)
  show "list_all (\<lambda>c. \<not> isUrlWhitespace c) u"
    using a by (auto simp: list_all_iff dest: pathChar_facts(1))
  show "list_all (\<lambda>c. c \<noteq> bslash) u"
    using a by (auto simp: list_all_iff dest: pathChar_facts(2))
  show "list_all (\<lambda>c. \<not> autoEscaped c) u"
    using a by (auto simp: list_all_iff dest: pathChar_facts(5))
  show "CHR ''#'' \<notin> set u"
    using a by (auto dest: pathChar_facts(3))
  show "CHR ''?'' \<notin> set u"
    using a by (auto dest: pathChar_facts(4))
qed

lemma urlParse_file:
  assumes "list_all pathChar p"
  shows "urlParse rt (''file://'' @ CHR ''/'' # p) True = Inr (fileUrlObject (CHR ''/'' # p))"
proof -
  let ?u = "''file://'' @ CHR ''/'' # p"
  from assms have c: "list_all pathChar ?u"
    by (simp add: pathChar_def plainChar_def isLetter_def isLowerAZ_def isUpperAZ_def charCode_def)
  from assms have q: "list_all pathChar (CHR ''/'' # p)" by (simp add: pathChar_def)
  note f = pathChar_list_facts [OF c]
  note g = pathChar_list_facts [OF q]
  have t: "urlTrim ?u = ?u" by (rule urlTrim_id [OF f(1)])
  have b: "convertBackslashes ?u = ?u" by (rule convertBackslashes_id [OF f(2)])
  have l: "map_option toLowerCase (Some ''file:'') = Some ''file:''"
    by (simp add: toLowerCase_def isUpperAZ_def charCode_def)
  have d: "drop (length ''file:'') ?u = ''//'' @ CHR ''/'' # p" by simp
  have pi: "\<not> protoIn (Some ''file:'') hostlessProtocol" "\<not> protoIn (Some ''file:'') unsafeProtocol"
    "protoIn (Some ''file:'') slashedProtocol"
    by (simp_all add: protoIn_def hostlessProtocol_def unsafeProtocol_def slashedProtocol_def)
  have tl: "parseTail (Some ''file:'') (CHR ''/'' # p) v = v\<lparr>hash := None, search := None, pathname := Some (CHR ''/'' # p)\<rparr>" for v
    by (rule parseTail_path_only [OF g(4) g(5)]) simp
  show ?thesis
    unfolding urlParse_def t b Let_def protocolMatch_file l
    by (simp add: d pi parseHostPart_empty_host autoEscapeStr_id [OF g(3)] tl emptyUrl_def fileUrlObject_def)
qed

lemma urlParse_relative:
  assumes "list_all (\<lambda>c. plainChar c \<or> c = CHR ''/'') r" "r \<noteq> []" "hd r \<noteq> CHR ''/''"
  shows "urlParse rt r True = Inr (emptyUrl\<lparr>pathname := Some r\<rparr>)"
proof -
  from assms(1) have "\<forall>c\<in>set r. plainChar c \<or> c = CHR ''/''" by (simp add: list_all_iff)
  then have c: "list_all pathChar r" and n: "CHR '':'' \<notin> set r"
    by (auto simp: list_all_iff pathChar_def dest: plainChar_facts(2))
  note f = pathChar_list_facts [OF c]
  have t: "urlTrim r = r" by (rule urlTrim_id [OF f(1)])
  have b: "convertBackslashes r = r" by (rule convertBackslashes_id [OF f(2)])
  from assms(2,3) have s: "take 2 r \<noteq> ''//''" by (cases r) auto
  have pi: "\<not> protoIn None hostlessProtocol" "\<not> protoIn None unsafeProtocol"
    by (simp_all add: protoIn_def)
  have tl: "parseTail None r v = v\<lparr>hash := None, search := None, pathname := Some r\<rparr>" for v
    by (rule parseTail_path_only [OF f(4) f(5) assms(2)])
  show ?thesis
    unfolding urlParse_def t b Let_def protocolMatch_no_colon [OF n]
    by (simp add: s pi autoEscapeStr_id [OF f(3)] tl emptyUrl_def)
qed

lemma urlParse_empty: "urlParse rt [] True = Inr emptyUrl"
  by code_simp

lemma urlFormat_file:
  assumes "CHR ''#'' \<notin> set p" "CHR ''?'' \<notin> set p"
  shows "urlFormat (fileUrlObject (CHR ''/'' # p)) = ''file://'' @ CHR ''/'' # p"
proof -
  have e: "escapeHashAndQuestion (CHR ''/'' # p) = CHR ''/'' # p"
    using assms by (intro escapeHashAndQuestion_id) auto
  show ?thesis
    unfolding urlFormat_def fileUrlObject_def
    by (simp add: Let_def truthy_def orEmpty_def e slashedProtocol_def codeAt_def escapeHash_def)
qed

lemma urlFormat_path_only:
  assumes "CHR ''#'' \<notin> set r" "CHR ''?'' \<notin> set r"
  shows "urlFormat (emptyUrl\<lparr>pathname := Some r\<rparr>) = r"
proof -
  have e: "escapeHashAndQuestion r = r"
    using assms by (rule escapeHashAndQuestion_id)
  show ?thesis
    unfolding urlFormat_def emptyUrl_def
    by (simp add: Let_def truthy_def orEmpty_def e slashedProtocol_def escapeHash_def)
qed

lemma urlFormat_empty: "urlFormat emptyUrl = []"
  by code_simp

lemma joinSlash_Nil_iff: "joinSlash xs = [] \<longleftrightarrow> xs = [] \<or> xs = [[]]"
  by (induction xs rule: joinSlash.induct) auto

lemma joinSlash_leading_empty: "xs \<noteq> [] \<Longrightarrow> joinSlash ([] # xs) = CHR ''/'' # joinSlash xs"
  by (cases xs) auto

lemma joinSlash_trailing_empty: "xs \<noteq> [] \<Longrightarrow> joinSlash (xs @ [[]]) = joinSlash xs @ ''/''"
  by (induction xs rule: joinSlash.induct) auto

lemma set_joinSlash: "set (joinSlash xs) \<subseteq> insert (CHR ''/'') (\<Union> (set ` set xs))"
  by (induction xs rule: joinSlash.induct) auto

lemma resolveDots_relative:
  assumes ok: "list_all (\<lambda>s. s \<noteq> ''.'' \<and> s \<noteq> ''..'') (a @ b @ rr)"
    and a: "a \<noteq> []" "hd a = []" and rr: "rr \<noteq> []"
    and res: "host result = Some []" "auth result = None"
    and rel: "host relative = None" "auth relative = None" "\<not> slashes relative"
  shows "resolveDots result relative (a @ b @ replicate (length b) ''..'' @ rr) True True False
           = result\<lparr>pathname := Some (joinSlash (a @ rr))\<rparr>"
proof -
  let ?src = "a @ b @ replicate (length b) ''..'' @ rr"
  have d: "dotLoop (rev ?src) 0 [] = (a @ rr, 0)"
    by (rule dotLoop_relative [OF ok])
  from a obtain a' where a': "a = [] # a'" by (cases a) auto
  have l: "last ?src = last rr" using rr by simp
  have t: "\<not> truthy (Some [])" "\<not> truthy None" by (simp_all add: truthy_def)
  from ok rr have lr: "last rr \<noteq> ''.''" "last rr \<noteq> ''..''"
    by (auto simp: list_all_iff dest: last_in_set)
  have f: "firstIs [] (a @ rr)" by (simp add: a' firstIs_def)
  have j: "last rr = [] \<Longrightarrow> joinSlash (a @ rr) \<noteq> [] \<and> last (joinSlash (a @ rr)) = CHR ''/''"
  proof -
    assume e: "last rr = []"
    with rr have "a @ rr = (a @ butlast rr) @ [[]]"
      by (metis append_assoc append_butlast_last_id)
    moreover have "a @ butlast rr \<noteq> []" using a by simp
    ultimately have "joinSlash (a @ rr) = joinSlash (a @ butlast rr) @ ''/''"
      using joinSlash_trailing_empty by metis
    then show ?thesis by simp
  qed
  have n: "a @ rr \<noteq> []" "?src \<noteq> []" using a by simp_all
  show ?thesis
    unfolding resolveDots_def
    using n
    apply (simp only: Let_def d l split list.size)
    apply (cases "last rr = []")
     apply (simp_all add: res rel t lr f j)
    done
qed

lemma fileUrlObject_simps:
  "protocol (fileUrlObject p) = Some ''file:''" "slashes (fileUrlObject p)"
  "auth (fileUrlObject p) = None" "host (fileUrlObject p) = Some []"
  "port (fileUrlObject p) = None" "hostname (fileUrlObject p) = Some []"
  "hash (fileUrlObject p) = None" "search (fileUrlObject p) = None"
  "pathname (fileUrlObject p) = Some p"
  "(fileUrlObject p)\<lparr>pathname := Some q\<rparr> = fileUrlObject q"
  "(fileUrlObject p)\<lparr>hash := None\<rparr> = fileUrlObject p"
  "(fileUrlObject p)\<lparr>search := None\<rparr> = fileUrlObject p"
  by (simp_all add: fileUrlObject_def)

lemma pathOnly_simps:
  "protocol (emptyUrl\<lparr>pathname := Some r\<rparr>) = None" "\<not> slashes (emptyUrl\<lparr>pathname := Some r\<rparr>)"
  "auth (emptyUrl\<lparr>pathname := Some r\<rparr>) = None" "host (emptyUrl\<lparr>pathname := Some r\<rparr>) = None"
  "hash (emptyUrl\<lparr>pathname := Some r\<rparr>) = None" "search (emptyUrl\<lparr>pathname := Some r\<rparr>) = None"
  "pathname (emptyUrl\<lparr>pathname := Some r\<rparr>) = Some r"
  "hash emptyUrl = None"
  by (simp_all add: emptyUrl_def)

lemma resolvePath_relative:
  assumes "r \<noteq> []" "hd r \<noteq> CHR ''/''"
  shows "resolvePath (fileUrlObject (CHR ''/'' # p)) (emptyUrl\<lparr>pathname := Some r\<rparr>)
           = resolveDots (fileUrlObject (CHR ''/'' # p)) (emptyUrl\<lparr>pathname := Some r\<rparr>)
               (butlast (splitSlash (CHR ''/'' # p)) @ splitSlash r) True True False"
proof -
  from assms have c: "codeAt r 0 \<noteq> Some CHR ''/''" "r ! 0 \<noteq> CHR ''/''"
    by (cases r; auto simp: codeAt_def)+
  have s: "protoIn (Some ''file:'') slashedProtocol"
    by (simp add: protoIn_def slashedProtocol_def)
  have n: "splitSlash r \<noteq> []" by (rule splitSlash_not_Nil)
  show ?thesis
    unfolding resolvePath_def
    using assms n
    by (simp add: Let_def fileUrlObject_simps pathOnly_simps truthy_def orEmpty_def codeAt_def c s
        splitPathname_def emptyUrl_def del: splitSlash.simps)
qed

lemma resolveObject_relative:
  assumes "r \<noteq> []" "CHR ''#'' \<notin> set r" "CHR ''?'' \<notin> set r"
  shows "resolveObject (fileUrlObject p) (emptyUrl\<lparr>pathname := Some r\<rparr>)
           = resolvePath (fileUrlObject p) (emptyUrl\<lparr>pathname := Some r\<rparr>)"
  unfolding resolveObject_def
  using assms(1)
  by (simp add: Let_def urlFormat_path_only [OF assms(2,3)] pathOnly_simps fileUrlObject_simps truthy_def)

lemma resolveObject_empty: "resolveObject (fileUrlObject p) emptyUrl = fileUrlObject p"
  unfolding resolveObject_def
  by (simp add: Let_def urlFormat_empty pathOnly_simps fileUrlObject_simps)

lemma commonPrefixLength_append:
  "commonPrefixLength (p @ x) (p @ y) = length p + commonPrefixLength x y"
  by (induction p) auto

lemma hd_joinSlash:
  "xs \<noteq> [] \<Longrightarrow> hd xs \<noteq> [] \<Longrightarrow> joinSlash xs \<noteq> [] \<and> hd (joinSlash xs) = hd (hd xs)"
  by (induction xs rule: joinSlash.induct) auto

lemma list_all_pathChar_joinSlash:
  "list_all (list_all P) xs \<Longrightarrow> P (CHR ''/'') \<Longrightarrow> list_all P (joinSlash xs)"
  by (induction xs rule: joinSlash.induct) auto

lemma relate_file:
  assumes "list_all pathChar fp" "list_all pathChar tp"
  shows "relate rt (''file://'' @ CHR ''/'' # fp) (''file://'' @ CHR ''/'' # tp)
           = Inr (if length (relativePath (CHR ''/'' # fp) (CHR ''/'' # tp)) = 0 \<and> fp \<noteq> tp then ''./''
                  else relativePath (CHR ''/'' # fp) (CHR ''/'' # tp))"
  unfolding relate_def urlParse_file [OF assms(1)] urlParse_file [OF assms(2)]
  by (simp add: fileUrlObject_simps orEmpty_def Let_def)

lemma urlResolve_file_empty:
  assumes "list_all pathChar fp"
  shows "urlResolve rt (''file://'' @ CHR ''/'' # fp) [] = Inr (''file://'' @ CHR ''/'' # fp)"
proof -
  note f = pathChar_list_facts [OF assms]
  show ?thesis
    unfolding urlResolve_def urlParse_file [OF assms] urlParse_empty
    by (simp add: resolveObject_empty urlFormat_file [OF f(4) f(5)])
qed

lemma urlResolve_file_relative:
  assumes fp: "list_all pathChar fp"
    and sf: "splitSlash (CHR ''/'' # fp) = a @ b @ [[]]"
    and r: "r = joinSlash (replicate (length b) ''..'' @ rr)" "r \<noteq> []" "hd r \<noteq> CHR ''/''"
      "list_all (\<lambda>c. plainChar c \<or> c = CHR ''/'') r"
    and ok: "list_all (\<lambda>s. s \<noteq> ''.'' \<and> s \<noteq> ''..'') (a @ b @ rr)"
      "list_all (\<lambda>x. CHR ''/'' \<notin> set x) rr"
    and a: "a \<noteq> []" "hd a = []" and rr: "rr \<noteq> []"
    and tp: "joinSlash (a @ rr) = CHR ''/'' # tp" "list_all pathChar tp"
  shows "urlResolve rt (''file://'' @ CHR ''/'' # fp) r = Inr (''file://'' @ CHR ''/'' # tp)"
proof -
  from r(4) have "\<forall>c\<in>set r. plainChar c \<or> c = CHR ''/''" by (simp add: list_all_iff)
  then have rc: "list_all pathChar r"
    by (auto simp: list_all_iff pathChar_def)
  note rf = pathChar_list_facts [OF rc]
  note tf = pathChar_list_facts [OF tp(2)]
  have pr: "urlParse rt r True = Inr (emptyUrl\<lparr>pathname := Some r\<rparr>)"
    by (rule urlParse_relative [OF r(4) r(2) r(3)])
  have sr: "splitSlash r = replicate (length b) ''..'' @ rr"
    unfolding r(1) using rr ok(2) by (intro splitSlash_joinSlash) (auto simp: list_all_iff)
  have bl: "butlast (splitSlash (CHR ''/'' # fp)) = a @ b"
    unfolding sf by (simp add: butlast_append)
  have "resolveObject (fileUrlObject (CHR ''/'' # fp)) (emptyUrl\<lparr>pathname := Some r\<rparr>)
          = resolveDots (fileUrlObject (CHR ''/'' # fp)) (emptyUrl\<lparr>pathname := Some r\<rparr>)
              (a @ b @ replicate (length b) ''..'' @ rr) True True False"
    unfolding resolveObject_relative [OF r(2) rf(4) rf(5)] resolvePath_relative [OF r(2) r(3)] bl sr
    by simp
  also have "\<dots> = (fileUrlObject (CHR ''/'' # fp))\<lparr>pathname := Some (joinSlash (a @ rr))\<rparr>"
    by (rule resolveDots_relative [OF ok(1) a rr]) (simp_all add: fileUrlObject_simps pathOnly_simps)
  also have "\<dots> = fileUrlObject (CHR ''/'' # tp)"
    by (simp add: fileUrlObject_simps tp(1))
  finally have ro: "resolveObject (fileUrlObject (CHR ''/'' # fp)) (emptyUrl\<lparr>pathname := Some r\<rparr>)
      = fileUrlObject (CHR ''/'' # tp)" .
  show ?thesis
    unfolding urlResolve_def urlParse_file [OF fp] pr
    by (simp add: ro urlFormat_file [OF tf(4) tf(5)])
qed

lemma name_facts:
  assumes "rootName s \<or> plainName s \<or> s = []"
  shows "CHR ''/'' \<notin> set s" "s \<noteq> ''.''" "s \<noteq> ''..''" "list_all pathChar s"
proof -
  from assms have c: "\<forall>c\<in>set s. plainChar c \<or> c = CHR '':''"
    by (auto simp: rootName_def plainName_def list_all_iff)
  then show "CHR ''/'' \<notin> set s" using plainChar_facts(3) by auto
  from c show "list_all pathChar s" by (auto simp: list_all_iff pathChar_def)
  from assms show "s \<noteq> ''.''" "s \<noteq> ''..''"
    by (auto simp: rootName_def plainName_def)
qed

lemma plainName_facts:
  assumes "plainName s \<or> s = [] \<or> s = ''..''"
  shows "list_all (\<lambda>c. plainChar c \<or> c = CHR ''/'') s"
  using assms by (auto simp: plainName_def list_all_iff plainChar_def)

lemma relativeUrl_round_trip_file_uris:
  assumes cs: "list_all rootName cs" and ds: "list_all plainName ds" and ts: "list_all plainName ts"
    and nonempty: "dir \<or> ts \<noteq> []"
  shows "\<exists>r. relativeUrl rt (fileUriOf (cs @ ds) True) (fileUriOf (cs @ ts) dir) = Inr r
           \<and> isPathRelativeReference r
           \<and> urlResolve rt (fileUriOf (cs @ ds) True) r = Inr (fileUriOf (cs @ ts) dir)"
proof -
  define tl :: "string list" where "tl = (if dir then [[]] else [])"
  define fromSegs where "fromSegs = [] # (cs @ ds) @ [[]]"
  define toSegs where "toSegs = [] # (cs @ ts) @ tl"
  define fp where "fp = joinSlash ((cs @ ds) @ [[]])"
  define tp where "tp = joinSlash ((cs @ ts) @ tl)"
  from nonempty have tt: "ts @ tl \<noteq> []" by (auto simp: tl_def)
  have jf: "joinSlash fromSegs = CHR ''/'' # fp"
    unfolding fromSegs_def fp_def by (rule joinSlash_leading_empty) simp
  have jt: "joinSlash toSegs = CHR ''/'' # tp"
    unfolding toSegs_def tp_def using tt by (intro joinSlash_leading_empty) simp
  have from_eq: "fileUriOf (cs @ ds) True = ''file://'' @ CHR ''/'' # fp"
    using jf by (simp add: fileUriOf_def fromSegs_def)
  have to_eq: "fileUriOf (cs @ ts) dir = ''file://'' @ CHR ''/'' # tp"
    using jt by (simp add: fileUriOf_def toSegs_def tl_def)
  have names: "rootName s \<or> plainName s \<or> s = []" if "s \<in> set fromSegs \<union> set toSegs" for s
    using that cs ds ts by (auto simp: fromSegs_def toSegs_def tl_def list_all_iff split: if_splits)
  have seg: "CHR ''/'' \<notin> set s" "s \<noteq> ''.''" "s \<noteq> ''..''" "list_all pathChar s"
    if "s \<in> set fromSegs \<union> set toSegs" for s
    by (rule name_facts [OF names [OF that]])+
  have slash: "pathChar (CHR ''/'')" by (simp add: pathChar_def)
  have fne: "fromSegs \<noteq> []" "toSegs \<noteq> []" by (simp_all add: fromSegs_def toSegs_def)
  have fsub: "set ((cs @ ds) @ [[]]) \<subseteq> set fromSegs \<union> set toSegs"
    "set ((cs @ ts) @ tl) \<subseteq> set fromSegs \<union> set toSegs"
    by (auto simp: fromSegs_def toSegs_def)
  have "list_all (list_all pathChar) ((cs @ ds) @ [[]])"
    unfolding list_all_iff using fsub(1) seg(4) by (meson list_all_iff subsetD)
  then have fpc: "list_all pathChar fp"
    unfolding fp_def using slash by (rule list_all_pathChar_joinSlash)
  have "list_all (list_all pathChar) ((cs @ ts) @ tl)"
    unfolding list_all_iff using fsub(2) seg(4) by (meson list_all_iff subsetD)
  then have tpc: "list_all pathChar tp"
    unfolding tp_def using slash by (rule list_all_pathChar_joinSlash)
  have "list_all (\<lambda>x. CHR ''/'' \<notin> set x) fromSegs"
    unfolding list_all_iff using seg(1) by blast
  from splitSlash_joinSlash [OF fne(1) this]
  have sf: "splitSlash (CHR ''/'' # fp) = fromSegs"
    by (simp only: jf)
  have "list_all (\<lambda>x. CHR ''/'' \<notin> set x) toSegs"
    unfolding list_all_iff using seg(1) by blast
  from splitSlash_joinSlash [OF fne(2) this]
  have st: "splitSlash (CHR ''/'' # tp) = toSegs"
    by (simp only: jt)
  define c' where "c' = commonPrefixLength ds (butlast (ts @ tl))"
  define a where "a = [] # cs @ take c' ds"
  define b where "b = drop c' ds"
  define rr where "rr = drop c' (ts @ tl)"
  have bf: "butlast fromSegs = ([] # cs) @ ds"
    by (simp add: fromSegs_def butlast_append)
  have bt: "butlast toSegs = ([] # cs) @ butlast (ts @ tl)"
    using tt by (auto simp: toSegs_def butlast_append)
  have c: "commonPrefixLength (butlast fromSegs) (butlast toSegs) = length ([] # cs) + c'"
    unfolding bf bt c'_def by (rule commonPrefixLength_append)
  from commonPrefixLength_take [of ds "butlast (ts @ tl)"]
  have c'1: "c' \<le> length ds" and c'2: "c' \<le> length (butlast (ts @ tl))"
    and c'3: "take c' ds = take c' (butlast (ts @ tl))"
    by (simp_all add: c'_def)
  from c'2 tt have c'4: "c' < length (ts @ tl)" by (cases "ts @ tl" rule: rev_cases) auto
  then have te: "take c' (butlast (ts @ tl)) = take c' (ts @ tl)"
    by (simp add: take_butlast)
  from c'4 have rrne: "rr \<noteq> []" by (simp add: rr_def del: drop_append)
  have "take c' ds @ drop c' (ts @ tl) = ts @ tl"
    by (simp only: c'3 te append_take_drop_id)
  then have ar: "a @ rr = toSegs"
    by (simp add: a_def rr_def toSegs_def)
  have ab: "fromSegs = a @ b @ [[]]"
    by (simp add: a_def b_def fromSegs_def)
  have rp: "relativePath (CHR ''/'' # fp) (CHR ''/'' # tp) = joinSlash (replicate (length b) ''..'' @ rr)"
    unfolding relativePath_def sf st Let_def c
    by (simp add: bf b_def rr_def toSegs_def)
  define p where "p = joinSlash (replicate (length b) ''..'' @ rr)"
  have rel: "relativeUrl rt (fileUriOf (cs @ ds) True) (fileUriOf (cs @ ts) dir)
               = Inr (if length p = 0 \<and> fp \<noteq> tp then ''./'' else p)"
    unfolding relativeUrl_def from_eq to_eq relate_file [OF fpc tpc] rp p_def by (rule refl)
  have rrset: "set rr \<subseteq> set ts \<union> {[]}"
    unfolding rr_def using set_drop_subset [of c' "ts @ tl"] by (auto simp: tl_def split: if_splits)
  show ?thesis
  proof (cases "p = []")
    case True
    then have "replicate (length b) ''..'' @ rr = [[]]"
      using rrne by (auto simp: p_def joinSlash_Nil_iff)
    then have b0: "b = []" and r0: "rr = [[]]"
      by (cases b; simp)+
    from ar r0 ab b0 have "fromSegs = toSegs" by simp
    with jf jt have e: "fp = tp" by simp
    have "relativeUrl rt (fileUriOf (cs @ ds) True) (fileUriOf (cs @ ts) dir) = Inr []"
      using rel True e by simp
    moreover have "isPathRelativeReference []"
      by (simp add: isPathRelativeReference_def protocolMatch_no_colon)
    moreover have "urlResolve rt (fileUriOf (cs @ ds) True) [] = Inr (fileUriOf (cs @ ts) dir)"
      unfolding from_eq to_eq e [symmetric] by (rule urlResolve_file_empty [OF fpc])
    ultimately show ?thesis by blast
  next
    case False
    then have r: "relativeUrl rt (fileUriOf (cs @ ds) True) (fileUriOf (cs @ ts) dir) = Inr p"
      using rel by simp
    have segs: "plainName s \<or> s = [] \<or> s = ''..''" if "s \<in> set (replicate (length b) ''..'' @ rr)" for s
      using that rrset ts by (auto simp: list_all_iff)
    have "list_all (list_all (\<lambda>c. plainChar c \<or> c = CHR ''/'')) (replicate (length b) ''..'' @ rr)"
      unfolding list_all_iff
    proof
      fix s assume "s \<in> set (replicate (length b) ''..'' @ rr)"
      from plainName_facts [OF segs [OF this]]
      show "\<forall>c\<in>set s. plainChar c \<or> c = CHR ''/''" by (simp add: list_all_iff)
    qed
    then have pc: "list_all (\<lambda>c. plainChar c \<or> c = CHR ''/'') p"
      unfolding p_def by (rule list_all_pathChar_joinSlash) simp
    have hne: "hd (replicate (length b) ''..'' @ rr) \<noteq> []"
    proof (cases b)
      case Nil
      show ?thesis
      proof
        assume h: "hd (replicate (length b) ''..'' @ rr) = []"
        with Nil rrne have h': "hd rr = []" by simp
        have "drop c' ts = []"
        proof (rule ccontr)
          assume "drop c' ts \<noteq> []"
          then have "hd rr = hd (drop c' ts)" "hd (drop c' ts) \<in> set ts"
            using in_set_dropD [of "hd (drop c' ts)" c' ts] by (auto simp: rr_def)
          with h' ts show False by (auto simp: list_all_iff plainName_def)
        qed
        then have "rr = drop (c' - length ts) tl" by (simp add: rr_def)
        with rrne have "rr = [[]]"
          by (cases "c' - length ts") (auto simp: tl_def split: if_splits)
        with Nil have "p = []" by (simp add: p_def)
        with False show False by simp
      qed
    next
      case (Cons x xs)
      then show ?thesis by simp
    qed
    have hd_in: "hd (replicate (length b) ''..'' @ rr) \<in> set (replicate (length b) ''..'' @ rr)"
      using rrne by (intro hd_in_set) simp
    from hd_joinSlash [OF _ hne, of] rrne
    have hp: "p \<noteq> []" "hd p = hd (hd (replicate (length b) ''..'' @ rr))"
      by (simp_all add: p_def)
    from segs [OF hd_in] hne have "hd (hd (replicate (length b) ''..'' @ rr)) \<noteq> CHR ''/''"
      by (auto simp: plainName_def list_all_iff dest: plainChar_facts(3)
          intro: hd_in_set)
    with hp have hs: "hd p \<noteq> CHR ''/''" by simp
    from pc have nc: "CHR '':'' \<notin> set p"
      by (auto simp: list_all_iff dest: plainChar_facts(2))
    have "take 1 p \<noteq> ''/''"
      using hp(1) hs by (cases p) auto
    then have ipr: "isPathRelativeReference p"
      by (simp add: isPathRelativeReference_def protocolMatch_no_colon [OF nc])
    have ok1: "list_all (\<lambda>s. s \<noteq> ''.'' \<and> s \<noteq> ''..'') (a @ b @ rr)"
    proof -
      have "set (a @ b @ rr) \<subseteq> set fromSegs \<union> set toSegs"
        using ab ar by (metis Un_upper1 Un_upper2 le_sup_iff set_append)
      with seg(2,3) show ?thesis
        unfolding list_all_iff by blast
    qed
    have "set rr \<subseteq> set toSegs"
      unfolding ar [symmetric] by simp
    then have ok2: "list_all (\<lambda>x. CHR ''/'' \<notin> set x) rr"
      unfolding list_all_iff using seg(1) by blast
    have sfab: "splitSlash (CHR ''/'' # fp) = a @ b @ [[]]"
      using sf ab by simp
    have afacts: "a \<noteq> []" "hd a = []"
      by (simp_all add: a_def)
    have jarr: "joinSlash (a @ rr) = CHR ''/'' # tp"
      using ar jt by simp
    have "urlResolve rt (''file://'' @ CHR ''/'' # fp) p = Inr (''file://'' @ CHR ''/'' # tp)"
      by (rule urlResolve_file_relative [where a = a and b = b and rr = rr,
            OF fpc sfab p_def hp(1) hs pc ok1 ok2 afacts rrne jarr tpc])
    with r ipr show ?thesis
      unfolding from_eq to_eq by blast
  qed
qed

lemma relativeUrl_examples:
  "relativeUrl posixHost ''file:///home/user/project/'' ''file:///home/user/project'' = Inr ''../project''"
  "relativeUrl posixHost ''file:///home/user/project/'' ''file:///home/user/project/'' = Inr []"
  "relativeUrl posixHost ''http://example.org:80/a/'' ''http://example.org/a/b'' = Inr ''http://example.org/a/b''"
  "relativeUrl posixHost ''http://example.org:80/a/'' ''http://example.org:80/a/b'' = Inr ''b''"
  by code_simp+

text \<open>
  Claim C9, as stated: for every pair of absolute URI strings the helper returns a
  path-relative reference that \<^verbatim>\<open>url.resolve\<close> takes from the first URI to the second. Not
  for every pair: from a file URI to an \<^verbatim>\<open>http\<close> URI there is no path-relative reference
  (the second URI is returned), and a URI with dot segments is never the result of a
  resolution.
\<close>

theorem relativeUrl_counterexample:
  "relativeUrl posixHost ''file:///srv/www/'' ''http://example.org/a.php'' = Inr ''http://example.org/a.php''
   \<and> \<not> isPathRelativeReference ''http://example.org/a.php''
   \<and> relativeUrl posixHost ''file:///srv/'' ''file:///srv/a/../b.php'' = Inr ''a/../b.php''
   \<and> urlResolve posixHost ''file:///srv/'' ''a/../b.php'' = Inr ''file:///srv/b.php''
   \<and> urlResolve posixHost ''file:///srv/'' ''a/../b.php'' \<noteq> Inr ''file:///srv/a/../b.php''"
  by code_simp

text \<open>
  Claim C9, amended. From a directory URI \<^verbatim>\<open>file:///roots/names/\<close> to a file or directory
  URI \<^verbatim>\<open>file:///roots/names'\<close> with the same root names and plain names below them, the
  helper returns a path-relative reference (no scheme, no leading slash) that
  \<^verbatim>\<open>url.resolve\<close> takes from the first URI to the second. The trailing slash of the root
  counts: from \<^verbatim>\<open>.../project/\<close> the reference to \<^verbatim>\<open>.../project\<close> is \<^verbatim>\<open>../project\<close>, to
  \<^verbatim>\<open>.../project/\<close> it is empty. An explicit port counts: \<^verbatim>\<open>http://example.org:80\<close> and
  \<^verbatim>\<open>http://example.org\<close> are different authorities.
\<close>

theorem relativeUrl_round_trip:
  assumes "list_all rootName cs" and "list_all plainName ds" and "list_all plainName ts"
    and "dir \<or> ts \<noteq> []"
  shows "(\<exists>r. relativeUrl rt (fileUriOf (cs @ ds) True) (fileUriOf (cs @ ts) dir) = Inr r
            \<and> isPathRelativeReference r
            \<and> urlResolve rt (fileUriOf (cs @ ds) True) r = Inr (fileUriOf (cs @ ts) dir))
       \<and> relativeUrl posixHost ''file:///home/user/project/'' ''file:///home/user/project'' = Inr ''../project''
       \<and> relativeUrl posixHost ''file:///home/user/project/'' ''file:///home/user/project/'' = Inr []
       \<and> relativeUrl posixHost ''http://example.org:80/a/'' ''http://example.org/a/b'' = Inr ''http://example.org/a/b''
       \<and> relativeUrl posixHost ''http://example.org:80/a/'' ''http://example.org:80/a/b'' = Inr ''b''"
  using relativeUrl_round_trip_file_uris [OF assms] relativeUrl_examples by simp

theorem relativeUrl_round_trip_witness:
  "\<exists>r. relativeUrl posixHost ''file:///c:/inetpub/'' ''file:///c:/inetpub/site/index.php'' = Inr r
       \<and> isPathRelativeReference r
       \<and> urlResolve posixHost ''file:///c:/inetpub/'' r = Inr ''file:///c:/inetpub/site/index.php''"
proof -
  have h: "list_all rootName [''c:'']" "list_all plainName [''inetpub'']"
    "list_all plainName [''inetpub'', ''site'', ''index.php'']"
    by (simp_all add: rootName_def plainName_def plainChar_def isLetter_def isLowerAZ_def
        isUpperAZ_def isDigit_def charCode_def)
  have f: "fileUriOf ([''c:''] @ [''inetpub'']) True = ''file:///c:/inetpub/''"
    "fileUriOf ([''c:''] @ [''inetpub'', ''site'', ''index.php'']) False = ''file:///c:/inetpub/site/index.php''"
    by (simp_all add: fileUriOf_def)
  from relativeUrl_round_trip [OF h, of False posixHost]
  show ?thesis unfolding f by blast
qed

end
